theory Spec2Isabelle
  imports Complex_Main
begin

unbundle bit_operations_syntax

chapter \<open>The text-layout core of ascii-vibe-codex\<close>

text \<open>
  The functions of \<open>numbers.py\<close>, \<open>procgen.py\<close> (\<open>sparkline\<close> and
  \<open>density_field\<close>), \<open>charlib.py\<close>, \<open>aliases.py\<close>, \<open>renderer.py\<close> (the one of the package
  and the legacy one beside it), \<open>qc.py\<close> and \<open>transformers/html2ascii.py\<close> as functions of
  HOL, followed by what is proved of them. A function that can raise returns a sum, \<open>Inl\<close>
  carrying the exception. A source name that starts with an underscore is written without
  it, and the functions of the legacy renderer that share a name with one of the package
  carry the prefix \<open>legacy_\<close>.
\<close>

section \<open>Python values\<close>

text \<open>
  A Python \<open>str\<close> is a sequence of Unicode code points, so \<open>len\<close> counts code points:
  it is modelled as the list of its code points (what \<open>ord\<close> returns for each character).
  \<open>asc\<close> embeds an ASCII literal.
\<close>

type_synonym ustr = "int list"

definition asc :: "string \<Rightarrow> ustr" where
  "asc s = map of_char s"

text \<open>
  A Python \<open>float\<close> is modelled by the rational number it denotes (infinities and NaN are
  outside the model). Every arithmetic operation on floats rounds its exact result to the
  nearest binary64 value, ties to even; \<open>fl\<close> is that rounding (53-bit significand,
  exponent range unbounded).
\<close>

function bit_length :: "int \<Rightarrow> int" where
  "bit_length n = (if n \<le> 0 then 0 else 1 + bit_length (n div 2))"
  by pat_completeness auto
termination
  by (relation "measure nat") auto

declare bit_length.simps [simp del]

definition round_half_even :: "rat \<Rightarrow> int" where
  "round_half_even x =
     (let f = \<lfloor>x\<rfloor>; r = x - of_int f
      in if r < 1 / 2 then f
         else if 1 / 2 < r then f + 1
         else if even f then f else f + 1)"

definition float_exponent :: "rat \<Rightarrow> int" where
  "float_exponent x =
     (let a = \<bar>x\<bar>
      in if 1 \<le> a then bit_length \<lfloor>a\<rfloor> - 1
         else - bit_length (\<lceil>1 / a\<rceil> - 1))"

definition fl :: "rat \<Rightarrow> rat" where
  "fl x =
     (if x = 0 then 0
      else let s = 2 powi (float_exponent x - 52)
           in of_int (round_half_even (x / s)) * s)"

definition fadd :: "rat \<Rightarrow> rat \<Rightarrow> rat" where "fadd a b = fl (a + b)"
definition fsub :: "rat \<Rightarrow> rat \<Rightarrow> rat" where "fsub a b = fl (a - b)"
definition fmul :: "rat \<Rightarrow> rat \<Rightarrow> rat" where "fmul a b = fl (a * b)"
definition fdiv :: "rat \<Rightarrow> rat \<Rightarrow> rat" where "fdiv a b = fl (a / b)"

text \<open>\<open>int(x)\<close> on a float truncates towards zero; \<open>round(x)\<close> rounds half to even.\<close>

definition py_int :: "rat \<Rightarrow> int" where
  "py_int x = (if 0 \<le> x then \<lfloor>x\<rfloor> else \<lceil>x\<rceil>)"

definition py_round :: "rat \<Rightarrow> int" where
  "py_round x = round_half_even x"

text \<open>\<open>max(values)\<close> and \<open>min(values)\<close> on a non-empty list.\<close>

definition py_max :: "'a::linorder list \<Rightarrow> 'a" where
  "py_max xs = fold max (tl xs) (hd xs)"

definition py_min :: "'a::linorder list \<Rightarrow> 'a" where
  "py_min xs = fold min (tl xs) (hd xs)"

datatype py_error = ValueError | ZeroDivisionError | AssertionError | AttributeError | IndexError

section \<open>Python string operations\<close>

text \<open>
  \<open>str.strip\<close>, \<open>str.split\<close> without argument and \<open>\s\<close> in a \<open>str\<close> pattern all use the
  same set of white-space code points.
\<close>

definition is_space :: "int \<Rightarrow> bool" where
  "is_space c \<longleftrightarrow>
     (9 \<le> c \<and> c \<le> 13) \<or> (28 \<le> c \<and> c \<le> 32) \<or> c = 133 \<or> c = 160 \<or> c = 5760
     \<or> (8192 \<le> c \<and> c \<le> 8202) \<or> c = 8232 \<or> c = 8233 \<or> c = 8239 \<or> c = 8287
     \<or> c = 12288"

text \<open>\<open>s * n\<close> on a string: empty when \<open>n \<le> 0\<close>.\<close>

definition str_mul :: "ustr \<Rightarrow> int \<Rightarrow> ustr" where
  "str_mul s n = concat (replicate (nat n) s)"

definition lstrip :: "ustr \<Rightarrow> ustr" where
  "lstrip s = dropWhile is_space s"

definition rstrip :: "ustr \<Rightarrow> ustr" where
  "rstrip s = rev (dropWhile is_space (rev s))"

definition strip :: "ustr \<Rightarrow> ustr" where
  "strip s = rstrip (lstrip s)"

definition startswith :: "ustr \<Rightarrow> ustr \<Rightarrow> bool" where
  "startswith s p \<longleftrightarrow> take (length p) s = p"

definition endswith :: "ustr \<Rightarrow> ustr \<Rightarrow> bool" where
  "endswith s p \<longleftrightarrow> length p \<le> length s \<and> drop (length s - length p) s = p"

text \<open>\<open>p in s\<close> for strings: \<open>p\<close> occurs as a contiguous substring.\<close>

fun contains :: "ustr \<Rightarrow> ustr \<Rightarrow> bool" where
  "contains [] p = (p = [])"
| "contains (c # cs) p = (startswith (c # cs) p \<or> contains cs p)"

definition count_char :: "ustr \<Rightarrow> int \<Rightarrow> int" where
  "count_char s c = int (length (filter (\<lambda>d. d = c) s))"

definition ljust :: "ustr \<Rightarrow> int \<Rightarrow> ustr" where
  "ljust s w = s @ replicate (nat (w - int (length s))) 32"

definition rjust :: "ustr \<Rightarrow> int \<Rightarrow> ustr" where
  "rjust s w = replicate (nat (w - int (length s))) 32 @ s"

text \<open>
  \<open>str.center\<close> puts \<open>marg div 2 + (marg AND width AND 1)\<close> of the \<open>marg\<close> padding
  characters on the left.
\<close>

definition center :: "ustr \<Rightarrow> int \<Rightarrow> ustr" where
  "center s w =
     (let marg = w - int (length s)
      in if marg \<le> 0 then s
         else let left = marg div 2 + (marg AND w AND 1)
              in replicate (nat left) 32 @ s @ replicate (nat (marg - left)) 32)"

text \<open>The slice \<open>s[:k]\<close>; a negative \<open>k\<close> counts from the end.\<close>

definition slice_to :: "ustr \<Rightarrow> int \<Rightarrow> ustr" where
  "slice_to s k = (if 0 \<le> k then take (nat k) s else take (nat (int (length s) + k)) s)"

text \<open>The slice \<open>s[a:b]\<close> for \<open>a, b \<ge> 0\<close>.\<close>

definition slice :: "ustr \<Rightarrow> nat \<Rightarrow> nat \<Rightarrow> ustr" where
  "slice s a b = drop a (take b s)"

definition join :: "ustr \<Rightarrow> ustr list \<Rightarrow> ustr" where
  "join sep xs = (case xs of [] \<Rightarrow> [] | x # rest \<Rightarrow> x @ concat (map (\<lambda>y. sep @ y) rest))"

text \<open>\<open>s.split(c)\<close> for a separator of one character.\<close>

fun split_char :: "int \<Rightarrow> ustr \<Rightarrow> ustr list" where
  "split_char c [] = [[]]"
| "split_char c (d # ds) =
     (if d = c then [] # split_char c ds
      else (case split_char c ds of p # ps \<Rightarrow> (d # p) # ps | [] \<Rightarrow> [[d]]))"

text \<open>\<open>s.split()\<close>: the maximal runs of characters that are not white space.\<close>

fun split_ws_from :: "ustr \<Rightarrow> ustr \<Rightarrow> ustr list" where
  "split_ws_from cur [] = (if cur = [] then [] else [cur])"
| "split_ws_from cur (c # cs) =
     (if is_space c then (if cur = [] then split_ws_from [] cs else cur # split_ws_from [] cs)
      else split_ws_from (cur @ [c]) cs)"

definition split_ws :: "ustr \<Rightarrow> ustr list" where
  "split_ws s = split_ws_from [] s"

text \<open>
  \<open>str.splitlines\<close>: a line ends at \<open>\n\<close>, \<open>\r\<close>, \<open>\r\n\<close>, \<open>\v\<close>, \<open>\f\<close>, the
  separators \<open>0x1C\<close> to \<open>0x1E\<close>, \<open>0x85\<close>, \<open>0x2028\<close> and \<open>0x2029\<close>; there is no empty
  last line.
\<close>

definition is_linebreak :: "int \<Rightarrow> bool" where
  "is_linebreak c \<longleftrightarrow>
     (10 \<le> c \<and> c \<le> 13) \<or> (28 \<le> c \<and> c \<le> 30) \<or> c = 133 \<or> c = 8232 \<or> c = 8233"

fun splitlines_from :: "ustr \<Rightarrow> ustr \<Rightarrow> ustr list" where
  "splitlines_from cur [] = (if cur = [] then [] else [cur])"
| "splitlines_from cur [c] = (if is_linebreak c then [cur] else [cur @ [c]])"
| "splitlines_from cur (c # d # ds) =
     (if c = 13 \<and> d = 10 then cur # splitlines_from [] ds
      else if is_linebreak c then cur # splitlines_from [] (d # ds)
      else splitlines_from (cur @ [c]) (d # ds))"

definition splitlines :: "ustr \<Rightarrow> ustr list" where
  "splitlines s = splitlines_from [] s"

text \<open>\<open>str(n)\<close> for an integer.\<close>

function digits_of :: "int \<Rightarrow> ustr" where
  "digits_of n = (if n < 10 then [48 + n] else digits_of (n div 10) @ [48 + n mod 10])"
  by pat_completeness auto
termination
  by (relation "measure nat") auto

declare digits_of.simps [simp del]

definition str_int :: "int \<Rightarrow> ustr" where
  "str_int n = (if n < 0 then asc ''-'' @ digits_of (- n) else digits_of n)"

text \<open>
  The format \<open>f"{x:.df}"\<close> of a float: the exact value rounded half to even to \<open>d\<close>
  decimals; the sign is printed whenever the value is negative; no point when \<open>d = 0\<close>.
\<close>

definition zfill :: "nat \<Rightarrow> ustr \<Rightarrow> ustr" where
  "zfill d s = replicate (d - length s) 48 @ s"

definition fmt_fixed :: "nat \<Rightarrow> rat \<Rightarrow> ustr" where
  "fmt_fixed d x =
     (let n = round_half_even (\<bar>x\<bar> * 10 ^ d)
      in (if x < 0 then asc ''-'' else [])
         @ digits_of (n div 10 ^ d)
         @ (if d = 0 then [] else asc ''.'' @ zfill d (digits_of (n mod 10 ^ d))))"

text \<open>
  Grouping in threes from the right: the last three characters form a group, and so on
  leftwards, with \<open>sep\<close> between two groups. The \<open>,\<close> option of the format language
  groups the integer digits so, with a comma.
\<close>

function grouped_in_threes :: "ustr \<Rightarrow> ustr \<Rightarrow> ustr" where
  "grouped_in_threes sep s =
     (if length s \<le> 3 then s
      else grouped_in_threes sep (take (length s - 3) s) @ sep @ drop (length s - 3) s)"
  by pat_completeness auto
termination
  by (relation "measure (\<lambda>(sep, s). length s)") auto

declare grouped_in_threes.simps [simp del]

definition fmt_int_comma :: "int \<Rightarrow> ustr" where
  "fmt_int_comma n = (if n < 0 then asc ''-'' @ grouped_in_threes (asc '','') (digits_of (- n))
                      else grouped_in_threes (asc '','') (digits_of n))"

definition fmt_fixed_comma :: "nat \<Rightarrow> rat \<Rightarrow> ustr" where
  "fmt_fixed_comma d x =
     (let n = round_half_even (\<bar>x\<bar> * 10 ^ d)
      in (if x < 0 then asc ''-'' else [])
         @ grouped_in_threes (asc '','') (digits_of (n div 10 ^ d))
         @ (if d = 0 then [] else asc ''.'' @ zfill d (digits_of (n mod 10 ^ d))))"

text \<open>\<open>s.replace(a, b)\<close> for a single character \<open>a\<close>.\<close>

definition replace_char :: "int \<Rightarrow> ustr \<Rightarrow> ustr \<Rightarrow> ustr" where
  "replace_char a b s = concat (map (\<lambda>c. if c = a then b else [c]) s)"

section \<open>procgen.py\<close>

definition xorshift32 :: "int \<Rightarrow> int" where
  "xorshift32 seed =
     (let x = seed AND 0xFFFFFFFF;
          x = x XOR (push_bit 13 x AND 0xFFFFFFFF);
          x = x XOR drop_bit 17 x;
          x = x XOR (push_bit 5 x AND 0xFFFFFFFF)
      in x AND 0xFFFFFFFF)"

definition SPARK_UNI :: "ustr list" where
  "SPARK_UNI = [[0x2581], [0x2582], [0x2583], [0x2584], [0x2585], [0x2586], [0x2587], [0x2588]]"

definition SPARK_ASC :: "ustr list" where
  "SPARK_ASC = [asc ''.'', asc ''-'', asc ''='', asc ''#'']"

text \<open>The clamp \<open>max(0, min(len(palette) - 1, idx))\<close>, which makes the index valid.\<close>

definition clamp_idx :: "ustr list \<Rightarrow> int \<Rightarrow> int" where
  "clamp_idx palette idx = max 0 (min (int (length palette) - 1) idx)"

definition spark_cell :: "ustr list \<Rightarrow> int option \<Rightarrow> rat \<Rightarrow> rat \<Rightarrow> nat \<Rightarrow> rat \<Rightarrow> ustr" where
  "spark_cell palette seed lo hi i v =
     (let normalized = fdiv (fsub v lo) (fsub hi lo);
          idx = py_round (fmul normalized (of_int (int (length palette) - 1)));
          idx = clamp_idx palette idx;
          idx = (case seed of
                   None \<Rightarrow> idx
                 | Some sd \<Rightarrow>
                     (let variation_seed = sd + int i * 1337
                      in if xorshift32 variation_seed mod 10 = 0
                         then (let variation = xorshift32 (variation_seed * 2) mod 3 - 1
                               in clamp_idx palette (idx + variation))
                         else idx))
      in palette ! nat idx)"

definition sparkline :: "rat list \<Rightarrow> bool \<Rightarrow> int option \<Rightarrow> ustr" where
  "sparkline vals ascii_only seed =
     (if vals = [] then []
      else let float_vals = map fl vals;
               lo = py_min float_vals;
               hi = py_max float_vals;
               palette = (if ascii_only then SPARK_ASC else SPARK_UNI)
           in if hi = lo then str_mul (palette ! 0) (int (length vals))
              else concat (map (\<lambda>(i, v). spark_cell palette seed lo hi i v)
                               (enumerate 0 float_vals)))"

text \<open>
  The inner loop of \<open>density_field\<close> over the \<open>n\<close> columns left of one row; it returns
  the row and the generator state after it.
\<close>

fun density_row :: "int \<Rightarrow> int \<Rightarrow> int \<Rightarrow> nat \<Rightarrow> int \<Rightarrow> ustr \<times> int" where
  "density_row threshold fill_char empty_char 0 state = ([], state)"
| "density_row threshold fill_char empty_char (Suc n) state =
     (let state = xorshift32 state;
          char = (if state < threshold then fill_char else empty_char);
          (line, state) = density_row threshold fill_char empty_char n state
      in (char # line, state))"

text \<open>The outer loop over the \<open>m\<close> rows left.\<close>

fun density_rows :: "int \<Rightarrow> int \<Rightarrow> int \<Rightarrow> nat \<Rightarrow> nat \<Rightarrow> int \<Rightarrow> ustr list" where
  "density_rows threshold fill_char empty_char width 0 state = []"
| "density_rows threshold fill_char empty_char width (Suc m) state =
     (let (line, state) = density_row threshold fill_char empty_char width state
      in line # density_rows threshold fill_char empty_char width m state)"

definition density_fill_char :: "bool \<Rightarrow> int" where
  "density_fill_char ascii_only = (if ascii_only then of_char CHR ''#'' else 0x2593)"

definition density_empty_char :: int where
  "density_empty_char = of_char CHR '' ''"

definition density_threshold :: "rat \<Rightarrow> int" where
  "density_threshold density =
     (let density = max 0 (min 1 density)
      in py_int (fmul density 0xFFFFFFFF))"

definition density_field :: "int \<Rightarrow> int \<Rightarrow> rat \<Rightarrow> bool \<Rightarrow> int \<Rightarrow> ustr list" where
  "density_field width height density ascii_only seed =
     (if width \<le> 0 \<or> height \<le> 0 then []
      else density_rows (density_threshold density) (density_fill_char ascii_only)
             density_empty_char (nat width) (nat height) seed)"

section \<open>numbers.py\<close>

definition CURRENCY_SYMBOLS :: "(ustr \<times> ustr) list" where
  "CURRENCY_SYMBOLS =
     [(asc ''USD'', asc ''$''), (asc ''EUR'', [0x20AC]), (asc ''GBP'', [0xA3]),
      (asc ''JPY'', [0xA5]), (asc ''CHF'', asc ''Fr''), (asc ''CAD'', asc ''C$''),
      (asc ''AUD'', asc ''A$'')]"

definition THIN_SPACE :: ustr where
  "THIN_SPACE = [0x2009]"

definition REGULAR_SPACE :: ustr where
  "REGULAR_SPACE = asc '' ''"

text \<open>
  The loop \<open>for i, digit in enumerate(reversed(integer_part))\<close> of \<open>format_currency\<close>: it
  appends to \<open>groups\<close> the separator before every third digit, then the digit.
\<close>

fun currency_groups :: "ustr \<Rightarrow> nat \<Rightarrow> ustr \<Rightarrow> ustr list" where
  "currency_groups sep i [] = []"
| "currency_groups sep i (digit # rest) =
     (if 0 < i \<and> i mod 3 = 0 then [sep, [digit]] else [[digit]])
     @ currency_groups sep (Suc i) rest"

definition format_currency :: "rat \<Rightarrow> ustr \<Rightarrow> bool \<Rightarrow> ustr" where
  "format_currency val currency ascii_only =
     (let symbol = (case map_of CURRENCY_SYMBOLS currency of Some s \<Rightarrow> s | None \<Rightarrow> asc ''$'');
          abs_val = \<bar>val\<bar>;
          formatted = fmt_fixed 2 abs_val;
          parts = split_char 46 formatted;
          integer_part = parts ! 0;
          decimal_part = (if 1 < length parts then parts ! 1 else asc ''00'');
          integer_part =
            (if 3 < length integer_part
             then (let sep = (if ascii_only then REGULAR_SPACE else THIN_SPACE);
                       groups = currency_groups sep 0 (rev integer_part)
                   in concat (rev groups))
             else integer_part);
          formatted_abs = integer_part @ asc ''.'' @ decimal_part
      in if val < 0 then asc ''('' @ symbol @ formatted_abs @ asc '')''
         else symbol @ formatted_abs)"

definition format_percent :: "rat \<Rightarrow> nat \<Rightarrow> ustr" where
  "format_percent val decimal_places =
     (if val = 0 then asc ''0%''
      else let sign = (if 0 < val then asc ''+'' else [])
           in sign @ fmt_fixed decimal_places val @ asc ''%'')"

text \<open>
  The three substitutions of \<open>is_numeric_like\<close>. \<open>^[$\<euro>\<pounds>\<yen>]\s*\<close> removes one leading
  currency sign and the white space after it; \<open>%$\<close> removes a percent sign at the end of
  the string or before a final newline; \<open>[(),\s]\<close> removes every parenthesis, comma and
  white-space character.
\<close>

definition is_currency_sign :: "int \<Rightarrow> bool" where
  "is_currency_sign c \<longleftrightarrow> c = of_char CHR ''$'' \<or> c = 0x20AC \<or> c = 0xA3 \<or> c = 0xA5"

definition sub_currency_prefix :: "ustr \<Rightarrow> ustr" where
  "sub_currency_prefix s =
     (case s of [] \<Rightarrow> [] | c # cs \<Rightarrow> if is_currency_sign c then dropWhile is_space cs else s)"

definition sub_percent_end :: "ustr \<Rightarrow> ustr" where
  "sub_percent_end s =
     (if endswith s (asc ''%'') then butlast s
      else if endswith s [37, 10] then butlast (butlast s) @ [10]
      else s)"

definition sub_parens_commas_spaces :: "ustr \<Rightarrow> ustr" where
  "sub_parens_commas_spaces s =
     filter (\<lambda>c. \<not> (c = of_char CHR ''('' \<or> c = of_char CHR '')'' \<or> c = of_char CHR '',''
                    \<or> is_space c)) s"

text \<open>
  \<open>float(s)\<close> on a string is a parameter \<open>float_of_str\<close> of the functions that call it: it
  returns the value read or raises (\<open>ValueError\<close> for a string that is no number).
\<close>

definition is_numeric_like :: "(ustr \<Rightarrow> py_error + rat) \<Rightarrow> ustr \<Rightarrow> py_error + bool" where
  "is_numeric_like float_of_str text =
     (if text = [] \<or> strip text = [] then Inr False
      else let clean = strip text;
               clean = sub_currency_prefix clean;
               clean = sub_percent_end clean;
               clean = sub_parens_commas_spaces clean
           in case float_of_str clean of
                Inr v \<Rightarrow> Inr True
              | Inl ValueError \<Rightarrow> Inr False
              | Inl e \<Rightarrow> Inl e)"

text \<open>
  \<open>split_decimal_for_align\<close>: the prefix matched by \<open>^([$\<euro>\<pounds>\<yen>(+-]*\s*)\<close> and the suffix
  found by \<open>(\s*[%)]+)$\<close>, which is the final run of \<open>%\<close> and \<open>)\<close> with the white space
  before it.
\<close>

definition is_prefix_sign :: "int \<Rightarrow> bool" where
  "is_prefix_sign c \<longleftrightarrow>
     is_currency_sign c \<or> c = of_char CHR ''('' \<or> c = of_char CHR ''+'' \<or> c = of_char CHR ''-''"

definition align_prefix :: "ustr \<Rightarrow> ustr" where
  "align_prefix s =
     takeWhile is_prefix_sign s @ takeWhile is_space (dropWhile is_prefix_sign s)"

definition is_suffix_sign :: "int \<Rightarrow> bool" where
  "is_suffix_sign c \<longleftrightarrow> c = of_char CHR ''%'' \<or> c = of_char CHR '')''"

definition align_suffix :: "ustr \<Rightarrow> ustr" where
  "align_suffix s =
     (let r = rev s;
          signs = takeWhile is_suffix_sign r
      in if signs = [] then []
         else rev (signs @ takeWhile is_space (dropWhile is_suffix_sign r)))"

definition split_decimal_for_align :: "ustr \<Rightarrow> ustr \<times> ustr \<times> ustr" where
  "split_decimal_for_align text0 =
     (if text0 = [] \<or> strip text0 = [] then ([], [], [])
      else let text = strip text0;
               prefix = align_prefix text;
               suffix = align_suffix text;
               numeric_part = slice text (length prefix) (length text - length suffix)
           in if of_char CHR ''.'' \<in> set numeric_part
              then (prefix, takeWhile (\<lambda>c. c \<noteq> of_char CHR ''.'') numeric_part,
                    tl (dropWhile (\<lambda>c. c \<noteq> of_char CHR ''.'') numeric_part) @ suffix)
              else (prefix, numeric_part, suffix))"

text \<open>
  \<open>normalize_number\<close>. The class \<open>\d\<close> of the pattern \<open>[^\d.-]\<close> is the parameter
  \<open>is_digit\<close> (the decimal digits of Unicode). A float is the rational it denotes: a
  string that \<open>float\<close> reads as an infinity or as a NaN, on which the formatting of the
  last branch raises \<open>OverflowError\<close> or \<open>ValueError\<close>, has no value here.
\<close>

definition normalize_number ::
  "(ustr \<Rightarrow> py_error + rat) \<Rightarrow> (int \<Rightarrow> bool) \<Rightarrow> ustr \<Rightarrow> ustr \<Rightarrow> bool \<Rightarrow> py_error + ustr" where
  "normalize_number float_of_str is_digit text currency ascii_only =
     (case is_numeric_like float_of_str text of
        Inl e \<Rightarrow> Inl e
      | Inr False \<Rightarrow> Inr text
      | Inr True \<Rightarrow>
          (let clean = strip text;
               is_negative = (of_char CHR ''('' \<in> set clean \<or> startswith clean (asc ''-''));
               is_currency = list_ex (\<lambda>sym. contains clean sym) (map snd CURRENCY_SYMBOLS);
               is_percent = endswith clean (asc ''%'');
               numeric_str =
                 filter (\<lambda>c. is_digit c \<or> c = of_char CHR ''.'' \<or> c = of_char CHR ''-'')
                   (filter (\<lambda>c. c \<noteq> of_char CHR ''('' \<and> c \<noteq> of_char CHR '')'') clean)
           in case float_of_str numeric_str of
                Inl ValueError \<Rightarrow> Inr text
              | Inl e \<Rightarrow> Inl e
              | Inr v \<Rightarrow>
                  (let val = (if is_negative then - \<bar>v\<bar> else v)
                   in if is_currency then Inr (format_currency val currency ascii_only)
                      else if is_percent then Inr (format_percent val 1)
                      else if 1000 \<le> \<bar>val\<bar>
                      then (let sep = (if ascii_only then REGULAR_SPACE else THIN_SPACE)
                            in if val = of_int (py_int val)
                               then Inr (replace_char (of_char CHR '','') sep
                                           (fmt_int_comma (py_int val)))
                               else Inr (replace_char (of_char CHR '','') sep
                                           (fmt_fixed_comma 1 val)))
                      else Inr (if val \<noteq> of_int (py_int val) then fmt_fixed 1 val
                                else str_int (py_int val)))))"

text \<open>
  A reader of plain ASCII decimal numbers (sign, digits, an optional point and more
  digits), used to run the functions above on examples.
\<close>

definition is_ascii_digit :: "int \<Rightarrow> bool" where
  "is_ascii_digit c \<longleftrightarrow> 48 \<le> c \<and> c \<le> 57"

definition digits_value :: "ustr \<Rightarrow> int" where
  "digits_value s = foldl (\<lambda>a c. 10 * a + (c - 48)) 0 s"

definition ascii_float :: "ustr \<Rightarrow> py_error + rat" where
  "ascii_float s0 =
     (let s = strip s0;
          neg = startswith s (asc ''-'');
          body = (if startswith s (asc ''-'') \<or> startswith s (asc ''+'') then tl s else s);
          ip = takeWhile is_ascii_digit body;
          rest = dropWhile is_ascii_digit body;
          fp = (if startswith rest (asc ''.'') then tl rest else [])
      in if (ip = [] \<and> fp = []) \<or> \<not> list_all is_ascii_digit fp
            \<or> (rest \<noteq> [] \<and> \<not> startswith rest (asc ''.''))
         then Inl ValueError
         else let v = fl (of_int (digits_value (ip @ fp)) / 10 ^ length fp)
              in Inr (if neg then - v else v))"

section \<open>charlib.py and aliases.py\<close>

definition FULL_BLOCK :: ustr where
  "FULL_BLOCK = [0x2588]"

record box =
  box_h :: ustr
  box_v :: ustr
  box_tl :: ustr
  box_tr :: ustr
  box_bl :: ustr
  box_br :: ustr

record style_pack =
  sp_frame :: box
  sp_fill :: ustr
  sp_empty :: ustr
  sp_ruler :: ustr

definition UNICODE_BOX_single :: box where
  "UNICODE_BOX_single = \<lparr>box_h = [0x2500], box_v = [0x2502], box_tl = [0x250C], box_tr = [0x2510],
                          box_bl = [0x2514], box_br = [0x2518]\<rparr>"

definition UNICODE_BOX_double :: box where
  "UNICODE_BOX_double = \<lparr>box_h = [0x2550], box_v = [0x2551], box_tl = [0x2554], box_tr = [0x2557],
                          box_bl = [0x255A], box_br = [0x255D]\<rparr>"

definition UNICODE_BOX_heavy :: box where
  "UNICODE_BOX_heavy = \<lparr>box_h = [0x2501], box_v = [0x2503], box_tl = [0x250F], box_tr = [0x2513],
                         box_bl = [0x2517], box_br = [0x251B]\<rparr>"

definition ASCII_BOX_simple :: box where
  "ASCII_BOX_simple = \<lparr>box_h = asc ''-'', box_v = asc ''|'', box_tl = asc ''+'', box_tr = asc ''+'',
                        box_bl = asc ''+'', box_br = asc ''+''\<rparr>"

definition STYLE_PACKS :: "(ustr \<times> style_pack) list" where
  "STYLE_PACKS =
     [(asc ''minimal_ascii'',
         \<lparr>sp_frame = ASCII_BOX_simple, sp_fill = asc ''='', sp_empty = asc '' '', sp_ruler = asc ''|''\<rparr>),
      (asc ''bold_unicode'',
         \<lparr>sp_frame = UNICODE_BOX_heavy, sp_fill = [0x2588], sp_empty = [0x2591], sp_ruler = asc ''|''\<rparr>),
      (asc ''double_frame'',
         \<lparr>sp_frame = UNICODE_BOX_double, sp_fill = [0x2593], sp_empty = [0x2591], sp_ruler = asc ''+''\<rparr>),
      (asc ''hatch_fill'',
         \<lparr>sp_frame = UNICODE_BOX_single, sp_fill = [0x2551], sp_empty = asc '' '', sp_ruler = asc ''-''\<rparr>)]"

definition get_style_pack :: "ustr \<Rightarrow> style_pack" where
  "get_style_pack name =
     (case map_of STYLE_PACKS name of
        Some sp \<Rightarrow> sp
      | None \<Rightarrow> \<lparr>sp_frame = ASCII_BOX_simple, sp_fill = asc ''='', sp_empty = asc '' '', sp_ruler = asc ''|''\<rparr>)"

definition LABEL_ALIASES_CJK :: "(ustr \<times> ustr) list" where
  "LABEL_ALIASES_CJK =
     [([0x6E29, 0x5EA6], asc ''ONDO''), ([0x7D4C, 0x8DEF], asc ''ROUTE''),
      ([0x9867, 0x5BA2], asc ''CUSTOMER''), ([0x901F, 0x5EA6], asc ''SPEED''),
      ([0x6642, 0x9593], asc ''TIME''), ([0x6570, 0x91CF], asc ''QTY''),
      ([0x6700, 0x5927], asc ''MAX'')]"

definition EMOJI_TO_ASCII :: "(ustr \<times> ustr) list" where
  "EMOJI_TO_ASCII =
     [([0x1F525], asc ''FIRE''), ([0x1F4A7], asc ''WATER''), ([0x1F333], asc ''TREE''),
      ([0x26A1], asc ''ELEC''), ([0x2764, 0xFE0F], asc ''HEART''), ([0x1F680], asc ''ROCKET''),
      ([0x1F4E6], asc ''BOX''), ([0x1F40D], asc ''PYTHON'')]"

definition is_cjk :: "int \<Rightarrow> bool" where
  "is_cjk c \<longleftrightarrow> (0x4E00 \<le> c \<and> c \<le> 0x9FFF) \<or> (0x3040 \<le> c \<and> c \<le> 0x30FF)
                \<or> (0xAC00 \<le> c \<and> c \<le> 0xD7AF)"

definition is_emoji :: "int \<Rightarrow> bool" where
  "is_emoji c \<longleftrightarrow> (0x1F000 \<le> c \<and> c \<le> 0x1FAFF) \<or> (0x2600 \<le> c \<and> c \<le> 0x27BF)"

definition contains_cjk_or_emoji :: "ustr \<Rightarrow> bool" where
  "contains_cjk_or_emoji s \<longleftrightarrow> list_ex is_cjk s \<or> list_ex is_emoji s"

definition alias_label :: "ustr \<Rightarrow> ustr" where
  "alias_label label =
     (case map_of LABEL_ALIASES_CJK label of
        Some a \<Rightarrow> a
      | None \<Rightarrow> concat (map (\<lambda>ch. case map_of EMOJI_TO_ASCII [ch] of Some a \<Rightarrow> a | None \<Rightarrow> [ch])
                         label))"

section \<open>renderer.py of the package\<close>

definition round_half_up :: "rat \<Rightarrow> int" where
  "round_half_up x = \<lfloor>fadd x (1 / 2)\<rfloor>"

definition scale_bar_len :: "rat \<Rightarrow> rat \<Rightarrow> int \<Rightarrow> int" where
  "scale_bar_len val vmax width =
     (if vmax \<le> 0 then 0
      else let frac = fdiv val vmax
           in max 0 (min width (round_half_up (fmul frac (fl (of_int width))))))"

text \<open>
  The assignment \<open>cols[idx] = tick\<close>: an index below zero is taken from the end of the
  list, and one that then falls outside the list raises.
\<close>

definition list_set :: "'a list \<Rightarrow> int \<Rightarrow> 'a \<Rightarrow> py_error + 'a list" where
  "list_set xs i x =
     (if 0 \<le> i \<and> i < int (length xs) then Inr (xs[nat i := x])
      else if i < 0 \<and> 0 \<le> int (length xs) + i then Inr (xs[nat (int (length xs) + i) := x])
      else Inl IndexError)"

definition TICK_POSITIONS :: "rat list" where
  "TICK_POSITIONS = [0, 1 / 4, 1 / 2, 3 / 4, 1]"

text \<open>The index at which \<open>_build_horizontal_ruler\<close> puts the tick of fraction \<open>p\<close>.\<close>

definition ruler_tick_index :: "rat \<Rightarrow> int \<Rightarrow> int" where
  "ruler_tick_index p width = min (width - 1) (max 0 (round_half_up (fmul p (fl (of_int width)))))"

fun ruler_ticks :: "ustr list \<Rightarrow> int \<Rightarrow> ustr \<Rightarrow> rat list \<Rightarrow> py_error + ustr list" where
  "ruler_ticks cols width tick [] = Inr cols"
| "ruler_ticks cols width tick (p # ps) =
     (case list_set cols (ruler_tick_index p width) tick of
        Inl e \<Rightarrow> Inl e
      | Inr cols \<Rightarrow> ruler_ticks cols width tick ps)"

definition build_horizontal_ruler :: "int \<Rightarrow> rat list \<Rightarrow> ustr \<Rightarrow> ustr \<Rightarrow> py_error + ustr" where
  "build_horizontal_ruler width tick_positions tick fill_ch =
     (case ruler_ticks (replicate (nat width) fill_ch) width tick tick_positions of
        Inl e \<Rightarrow> Inl e
      | Inr cols \<Rightarrow> Inr (concat cols))"

definition any_cjk_or_emoji :: "ustr list \<Rightarrow> bool" where
  "any_cjk_or_emoji labels = list_ex contains_cjk_or_emoji labels"

text \<open>The label of a tick: \<open>str(int(_round_half_up(p * vmax)))\<close>.\<close>

definition tick_val :: "rat \<Rightarrow> rat \<Rightarrow> ustr" where
  "tick_val p vmax = str_int (round_half_up (fmul p vmax))"

text \<open>The loop that lays the tick labels out; \<open>pos_chars\<close> is the width written so far.\<close>

fun tick_row_loop :: "int \<Rightarrow> ustr \<Rightarrow> int \<Rightarrow> (rat \<times> ustr) list \<Rightarrow> ustr" where
  "tick_row_loop width tick_row pos_chars [] = tick_row"
| "tick_row_loop width tick_row pos_chars ((p, lab) # rest) =
     (let target = round_half_up (fmul p (fl (of_int width)));
          pad = max 0 (target - pos_chars - int (length lab))
      in tick_row_loop width (tick_row @ str_mul (asc '' '') pad @ lab)
           (pos_chars + (pad + int (length lab))) rest)"

definition percent_of :: "rat \<Rightarrow> rat \<Rightarrow> int" where
  "percent_of total_sum val =
     (if 0 < total_sum then round_half_up (fmul (fdiv val total_sum) 100) else 0)"

definition render_bar_chart_ascii ::
  "ustr \<Rightarrow> (ustr \<times> rat) list \<Rightarrow> int \<Rightarrow> ustr \<Rightarrow> bool \<Rightarrow> bool \<Rightarrow> py_error + ustr" where
  "render_bar_chart_ascii title series width style_pack_name show_scale ascii_only =
     (if series = [] then Inr (title @ [10] @ asc ''( no data )'')
      else
        let sp = get_style_pack (if ascii_only then asc ''minimal_ascii'' else style_pack_name);
            fill_ch = sp_fill sp;
            empty_ch = asc '' '';
            labels = map fst series;
            vals = map snd series;
            vmax = py_max vals;
            total_sum = foldl fadd 0 vals;
            needs_legend = any_cjk_or_emoji labels;
            resolved_labels =
              map (\<lambda>(i, lbl). if needs_legend then str_int (int i + 1) else alias_label lbl)
                  (enumerate 0 labels);
            label_col_width = max 6 (py_max (map (\<lambda>x. int (length x)) resolved_labels));
            max_value_len = py_max (map (\<lambda>x. int (length (str_int (py_int x)))) vals);
            percents = map (percent_of total_sum) vals;
            max_percent_len = py_max (map (\<lambda>p. int (length (str_int p))) percents);
            rows = [title];
            rows = (if needs_legend
                    then rows @ [asc ''Labels:'']
                         @ map (\<lambda>(i, lbl). asc ''  '' @ str_int (int i) @ asc ''. '' @ alias_label lbl)
                               (enumerate 1 labels)
                    else rows);
            rows = rows
              @ map (\<lambda>(i, x).
                       let n = scale_bar_len x vmax width;
                           bar = str_mul fill_ch n @ str_mul empty_ch (width - n);
                           tag = asc ''['' @ ljust (resolved_labels ! i) label_col_width @ asc '']'';
                           valpct = rjust (str_int (py_int x)) max_value_len @ asc '' (''
                                    @ rjust (str_int (percents ! i)) max_percent_len @ asc ''%)''
                       in tag @ asc '' '' @ bar @ asc '' '' @ valpct)
                    (enumerate 0 vals)
        in if show_scale
           then (let label_space = label_col_width + 3
                 in case build_horizontal_ruler width TICK_POSITIONS (sp_ruler sp) (asc ''-'') of
                      Inl e \<Rightarrow> Inl e
                    | Inr ruler_line \<Rightarrow>
                        (let rows = rows @ [str_mul (asc '' '') label_space @ ruler_line];
                             tick_vals = map (\<lambda>p. tick_val p vmax) TICK_POSITIONS;
                             tick_row = tick_row_loop width (str_mul (asc '' '') label_space) 0
                                          (zip TICK_POSITIONS tick_vals)
                         in Inr (join [10] (rows @ [tick_row]))))
           else Inr (join [10] rows))"

text \<open>
  The last step of a bar row, in both renderers: a row whose length is not \<open>W\<close> is cut to
  \<open>row[:W]\<close> when it is longer and padded with spaces when it is shorter.
\<close>

definition clip_or_pad :: "ustr \<Rightarrow> int \<Rightarrow> ustr" where
  "clip_or_pad row W =
     (if int (length row) \<noteq> W
      then (if W < int (length row) then slice_to row W
            else row @ str_mul (asc '' '') (W - int (length row)))
      else row)"

text \<open>
  The full-block band. \<open>str.upper\<close> is the parameter \<open>upper\<close>. \<open>swiss_row\<close> is the body of
  the loop over the bars.
\<close>

definition swiss_row :: "(ustr \<Rightarrow> ustr) \<Rightarrow> int \<Rightarrow> int \<Rightarrow> int \<Rightarrow> int \<Rightarrow> ustr \<times> int \<Rightarrow> ustr" where
  "swiss_row upper L_inner B W vmax lv =
     (let lab = fst lv; val = snd lv;
          raw = strip lab;
          raw = (if startswith raw (asc ''['') \<and> endswith raw (asc '']'')
                 then strip (butlast (tl raw)) else raw);
          label_inner = slice_to (ljust (upper raw) L_inner) L_inner;
          label_block = asc ''['' @ label_inner @ asc '']'';
          n = py_round (fmul (fdiv (fl (of_int val)) (fl (of_int vmax))) (fl (of_int B)));
          bar_seg = str_mul FULL_BLOCK n @ str_mul (asc '' '') (B - n);
          val_txt = rjust (str_int val) 2;
          row = FULL_BLOCK @ asc '' '' @ label_block @ asc '' '' @ bar_seg @ asc '' '' @ val_txt
                @ asc '' '' @ FULL_BLOCK
      in clip_or_pad row W)"

definition swiss_lines :: "(ustr \<Rightarrow> ustr) \<Rightarrow> ustr \<Rightarrow> ustr list \<Rightarrow> int list \<Rightarrow> int \<Rightarrow> int \<Rightarrow> ustr list" where
  "swiss_lines upper title labels vals W B =
     (let vmax = py_max vals;
          vmax = (if vmax \<le> 0 then 1 else vmax);
          L = W - (B + 8);
          L_inner = L - 2;
          title_inner = center (upper title) (W - 2)
      in [str_mul FULL_BLOCK W, FULL_BLOCK @ title_inner @ FULL_BLOCK]
         @ map (swiss_row upper L_inner B W vmax) (zip labels vals)
         @ [str_mul FULL_BLOCK W])"

definition render_swiss_full_block_bar ::
  "(ustr \<Rightarrow> ustr) \<Rightarrow> ustr \<Rightarrow> ustr list \<Rightarrow> int list \<Rightarrow> int \<Rightarrow> int \<Rightarrow> py_error + ustr" where
  "render_swiss_full_block_bar upper title labels vals total_width bar_width =
     (let W = total_width; B = bar_width
      in if labels = [] \<or> vals = [] \<or> length labels \<noteq> length vals then Inr title
         else if W - (B + 8) < 4 then Inl ValueError
         else Inr (join [10] (swiss_lines upper title labels vals W B)))"

text \<open>ASCII upper-casing, used to run the renderer on examples.\<close>

definition ascii_upper :: "ustr \<Rightarrow> ustr" where
  "ascii_upper s = map (\<lambda>c. if 97 \<le> c \<and> c \<le> 122 then c - 32 else c) s"

section \<open>The legacy renderer.py\<close>

definition legacy_scale_bar_len :: "rat \<Rightarrow> rat \<Rightarrow> int \<Rightarrow> int" where
  "legacy_scale_bar_len val vmax width =
     (if vmax \<le> 0 then 0 else py_round (fmul (fdiv val vmax) (fl (of_int width))))"

definition half_up_int :: "rat \<Rightarrow> int" where
  "half_up_int x = py_round x"

text \<open>
  The label field is the widest bracketed label, the value field the widest value printed
  as an integer and at least 2.
\<close>

definition swiss_label_field :: "ustr list \<Rightarrow> int" where
  "swiss_label_field labels =
     (if labels \<noteq> [] then py_max (map (\<lambda>l. int (length (asc ''['' @ l @ asc '']''))) labels)
      else 7)"

definition swiss_value_field :: "rat list \<Rightarrow> int" where
  "swiss_value_field vals =
     max 2 (if vals \<noteq> [] then py_max (map (\<lambda>x. int (length (str_int (py_int x)))) vals)
            else 2)"

definition prepare_swiss_fields ::
  "ustr list \<Rightarrow> rat list \<Rightarrow> int \<Rightarrow> int option \<Rightarrow> int \<times> int \<times> int \<times> int" where
  "prepare_swiss_fields labels vals total_width bar_width =
     (let label_field = swiss_label_field labels;
          value_field = swiss_value_field vals;
          bar_field = total_width - (label_field + value_field + 6);
          shrink = (if bar_field < 0 then min (label_field - 3) (- bar_field) else 0);
          label_field = (if bar_field < 0 then label_field - shrink else label_field);
          bar_field = (if bar_field < 0 then total_width - (label_field + value_field + 6)
                       else bar_field);
          bar_field = (if bar_field < 1 then 1 else bar_field)
      in (label_field, bar_field, value_field, total_width))"

definition legacy_swiss_row :: "int \<Rightarrow> int \<Rightarrow> int \<Rightarrow> int \<Rightarrow> rat \<Rightarrow> ustr \<times> rat \<Rightarrow> ustr" where
  "legacy_swiss_row L B V W vmax lv =
     (let label = fst lv; val = snd lv;
          label_txt = asc ''['' @ label @ asc '']'';
          label_padded = (if int (length label_txt) < L
                          then label_txt @ str_mul (asc '' '') (L - int (length label_txt))
                          else slice_to label_txt L);
          n = legacy_scale_bar_len val vmax B;
          bar_seg = str_mul FULL_BLOCK n @ str_mul (asc '' '') (B - n);
          value_txt = str_int (py_round val);
          row = FULL_BLOCK @ asc '' '' @ label_padded @ asc '' '' @ bar_seg @ asc '' ''
                @ rjust value_txt V @ asc '' '' @ FULL_BLOCK
      in clip_or_pad row W)"

definition legacy_swiss_lines :: "ustr \<Rightarrow> ustr list \<Rightarrow> rat list \<Rightarrow> int \<Rightarrow> int option \<Rightarrow> ustr list" where
  "legacy_swiss_lines title labels vals total_width bar_width =
     (case prepare_swiss_fields labels vals total_width bar_width of
        (L, B, V, W) \<Rightarrow>
          (let vmax = py_max vals;
               top_band = str_mul FULL_BLOCK W;
               title_row_inner = asc '' '' @ title @ asc '' '';
               title_row_inner = (if W - 2 < int (length title_row_inner)
                                  then asc '' '' @ slice_to title (max 0 (W - 4)) @ asc '' ''
                                  else title_row_inner);
               pad_left = (W - int (length title_row_inner)) div 2;
               pad_right = W - int (length title_row_inner) - pad_left
           in [top_band,
               str_mul FULL_BLOCK pad_left @ title_row_inner @ str_mul FULL_BLOCK pad_right,
               str_mul FULL_BLOCK W]
              @ map (legacy_swiss_row L B V W vmax) (zip labels vals)
              @ [str_mul FULL_BLOCK W]))"

definition legacy_render_swiss_full_block_bar ::
  "ustr \<Rightarrow> ustr list \<Rightarrow> rat list \<Rightarrow> int \<Rightarrow> int option \<Rightarrow> py_error + ustr" where
  "legacy_render_swiss_full_block_bar title labels vals total_width bar_width =
     (if length labels \<noteq> length vals then Inl AssertionError
      else if labels = [] then Inr title
      else Inr (join [10] (legacy_swiss_lines title labels vals total_width bar_width)))"

section \<open>qc.py\<close>

definition validate_row_widths :: "ustr list \<Rightarrow> bool" where
  "validate_row_widths lines =
     (let non_empty = filter (\<lambda>line. strip line \<noteq> []) lines
      in if non_empty = [] then True
         else length (remdups (map length non_empty)) = 1)"

text \<open>The fill length the validator expects: \<open>round(values[i] / max_val * width)\<close>.\<close>

definition expected_chars :: "rat \<Rightarrow> rat \<Rightarrow> int \<Rightarrow> py_error + int" where
  "expected_chars val max_val width =
     (if max_val = 0 then Inl ZeroDivisionError
      else Inr (py_round (fmul (fdiv val max_val) (fl (of_int width)))))"

definition is_bar_line :: "ustr \<Rightarrow> bool" where
  "is_bar_line line \<longleftrightarrow> startswith (strip line) (asc ''['')"

fun proportions_loop :: "rat list \<Rightarrow> rat \<Rightarrow> int \<Rightarrow> nat \<Rightarrow> ustr list \<Rightarrow> py_error + bool" where
  "proportions_loop vals max_val width i [] = Inr True"
| "proportions_loop vals max_val width i (line # rest) =
     (if i < length vals
      then (case expected_chars (vals ! i) max_val width of
              Inl e \<Rightarrow> Inl e
            | Inr expected \<Rightarrow>
                (let actual = count_char line 0x2588 + count_char line (of_char CHR ''='')
                 in if expected \<noteq> actual then Inr False
                    else proportions_loop vals max_val width (Suc i) rest))
      else proportions_loop vals max_val width (Suc i) rest)"

definition validate_bar_proportions :: "ustr list \<Rightarrow> (ustr \<times> rat) list \<Rightarrow> int \<Rightarrow> py_error + bool" where
  "validate_bar_proportions lines data width =
     (let bar_lines = filter is_bar_line lines
      in if bar_lines = [] \<or> data = [] then Inr True
         else let vals = map snd data;
                  max_val = (if vals \<noteq> [] then py_max vals else 1)
              in proportions_loop vals max_val width 0 bar_lines)"

record qc_result =
  width_ok :: bool
  proportions_ok :: bool
  borders_ok :: bool

definition frame_chars :: "int list" where
  "frame_chars =
     [0x250C, 0x250F, 0x2554, of_char CHR ''+'', 0x2502, 0x2503, 0x2551, of_char CHR ''|'',
      0x2510, 0x2513, 0x2557, 0x2514, 0x2517, 0x255A, 0x2500, 0x2501, 0x2550, of_char CHR ''-'']"

definition starts_with_any :: "ustr \<Rightarrow> ustr list \<Rightarrow> bool" where
  "starts_with_any s ps \<longleftrightarrow> list_ex (\<lambda>p. startswith s p) ps"

definition ends_with_any :: "ustr \<Rightarrow> ustr list \<Rightarrow> bool" where
  "ends_with_any s ps \<longleftrightarrow> list_ex (\<lambda>p. endswith s p) ps"

fun borders_loop :: "ustr list \<Rightarrow> bool" where
  "borders_loop [] = True"
| "borders_loop (line # rest) =
     (if line \<noteq> [] \<and> list_ex (\<lambda>c. c \<in> set frame_chars) line
      then (if starts_with_any line [[0x250C], [0x250F], [0x2554], asc ''+'']
               \<and> \<not> ends_with_any line [[0x2510], [0x2513], [0x2557], asc ''+'']
            then False
            else if starts_with_any line [[0x2514], [0x2517], [0x255A], asc ''+'']
               \<and> \<not> ends_with_any line [[0x2518], [0x251B], [0x255D], asc ''+'']
            then False
            else borders_loop rest)
      else borders_loop rest)"

definition qc_block :: "ustr \<Rightarrow> (ustr \<times> rat) list option \<Rightarrow> int option \<Rightarrow> qc_result" where
  "qc_block text data width =
     (let lines = splitlines text;
          out = \<lparr>width_ok = True, proportions_ok = True, borders_ok = True\<rparr>;
          out = (if \<not> validate_row_widths lines then out\<lparr>width_ok := False\<rparr> else out);
          out = (case data of
                   None \<Rightarrow> out
                 | Some d \<Rightarrow>
                     (case width of
                        None \<Rightarrow> out
                      | Some w \<Rightarrow>
                          (case validate_bar_proportions lines d w of
                             Inl e \<Rightarrow> out\<lparr>proportions_ok := False\<rparr>
                           | Inr ok \<Rightarrow> if \<not> ok then out\<lparr>proportions_ok := False\<rparr> else out)));
          out = (if \<not> borders_loop lines then out\<lparr>borders_ok := False\<rparr> else out)
      in out)"

section \<open>transformers/html2ascii.py\<close>

text \<open>
  The class \<open>_SwissHTML\<close> extends the library's \<open>HTMLParser\<close>, whose \<open>feed\<close> calls the
  handlers \<open>handle_starttag\<close>, \<open>handle_endtag\<close> and \<open>handle_data\<close> in the order of the
  document. The sequence of these calls is the parameter \<open>feed\<close> of \<open>html_to_swiss_ascii\<close>;
  \<open>textwrap.wrap(chunk, width, break_long_words=False, replace_whitespace=True)\<close> is the
  parameter \<open>wrap\<close>. The handlers ignore the attributes of a tag.
\<close>

datatype html_event = StartTag ustr | EndTag ustr | Data ustr

definition SWISS_MAX_LINE :: int where
  "SWISS_MAX_LINE = 80"

definition BULLET :: ustr where
  "BULLET = asc ''- ''"

definition wrap_paragraphs :: "(ustr \<Rightarrow> int \<Rightarrow> ustr list) \<Rightarrow> ustr \<Rightarrow> int \<Rightarrow> ustr list" where
  "wrap_paragraphs wrap text width =
     concat (map (\<lambda>para. let chunk = strip para
                         in if chunk = [] then [[]] else wrap chunk width)
                 (splitlines text))"

record table_state =
  t_rows :: "ustr list list"
  t_row :: "ustr list option"
  t_cell :: "ustr option"
  t_header_done :: bool

record swiss_html =
  p_width :: int
  p_ascii_only :: bool
  p_out :: "ustr list"
  p_buf :: ustr
  p_in_li :: bool
  p_table :: "table_state option"

definition flush_buf_as_paragraph :: "(ustr \<Rightarrow> int \<Rightarrow> ustr list) \<Rightarrow> swiss_html \<Rightarrow> swiss_html" where
  "flush_buf_as_paragraph wrap p =
     (let txt = join (asc '' '') (split_ws (p_buf p));
          p = p\<lparr>p_buf := []\<rparr>
      in if txt \<noteq> [] then p\<lparr>p_out := p_out p @ wrap_paragraphs wrap txt (p_width p) @ [[]]\<rparr>
         else p)"

text \<open>The columns in which a data row (any row but the first) has a numeric-like cell.\<close>

fun numeric_in_row :: "(ustr \<Rightarrow> py_error + rat) \<Rightarrow> nat \<Rightarrow> ustr list \<Rightarrow> py_error + nat list" where
  "numeric_in_row float_of_str j [] = Inr []"
| "numeric_in_row float_of_str j (c # cs) =
     (case is_numeric_like float_of_str c of
        Inl e \<Rightarrow> Inl e
      | Inr b \<Rightarrow>
          (case numeric_in_row float_of_str (Suc j) cs of
             Inl e \<Rightarrow> Inl e
           | Inr js \<Rightarrow> Inr (if b then j # js else js)))"

fun numeric_columns :: "(ustr \<Rightarrow> py_error + rat) \<Rightarrow> ustr list list \<Rightarrow> py_error + nat list" where
  "numeric_columns float_of_str [] = Inr []"
| "numeric_columns float_of_str (r # rs) =
     (case numeric_in_row float_of_str 0 r of
        Inl e \<Rightarrow> Inl e
      | Inr js \<Rightarrow>
          (case numeric_columns float_of_str rs of
             Inl e \<Rightarrow> Inl e
           | Inr ks \<Rightarrow> Inr (js @ ks)))"

text \<open>\<open>left_w[j]\<close> and \<open>right_w[j]\<close>.\<close>

definition column_widths :: "nat list \<Rightarrow> ustr list list \<Rightarrow> nat \<Rightarrow> int \<times> int" where
  "column_widths numeric_cols rs j =
     (if j \<in> set numeric_cols
      then foldl (\<lambda>(lw, rw) r.
                    if j < length r
                    then (case split_decimal_for_align (r ! j) of
                            (prefix, left, right) \<Rightarrow>
                              (max lw (int (length prefix) + int (length left)),
                               max rw (int (length right))))
                    else (lw, rw))
                 (0, 0) (tl rs)
      else (py_max (map (\<lambda>r. if j < length r then int (length (r ! j)) else 0) rs), 0))"

definition fmt_cell :: "nat list \<Rightarrow> ustr list list \<Rightarrow> nat \<Rightarrow> ustr \<Rightarrow> bool \<Rightarrow> ustr" where
  "fmt_cell numeric_cols rs j text is_header =
     (let left_w = fst (column_widths numeric_cols rs j);
          right_w = snd (column_widths numeric_cols rs j)
      in if j \<in> set numeric_cols \<and> \<not> is_header
         then (case split_decimal_for_align text of
                 (prefix, left, right) \<Rightarrow>
                   (let mid = (if right = [] then asc '' '' else asc ''.'')
                    in asc '' '' @ prefix @ rjust left (left_w - int (length prefix)) @ mid
                       @ ljust right right_w @ asc '' ''))
         else asc '' '' @ ljust text left_w @ asc '' '')"

definition table_bar :: "nat list \<Rightarrow> ustr list list \<Rightarrow> ustr" where
  "table_bar numeric_cols rs =
     (let segs = map (\<lambda>j. let left_w = fst (column_widths numeric_cols rs j);
                              right_w = snd (column_widths numeric_cols rs j);
                              cell_w = (left_w + (if right_w \<noteq> 0 then 1 else 0) + right_w) + 2
                          in str_mul (asc ''-'') cell_w)
                     [0..<length (hd rs)]
      in asc ''+'' @ join (asc ''+'') segs @ asc ''+'')"

definition flush_table_structured ::
  "(ustr \<Rightarrow> py_error + rat) \<Rightarrow> ustr list list \<Rightarrow> swiss_html \<Rightarrow> py_error + swiss_html" where
  "flush_table_structured float_of_str rs p =
     (if rs = [] then Inr p
      else case numeric_columns float_of_str (tl rs) of
             Inl e \<Rightarrow> Inl e
           | Inr numeric_cols \<Rightarrow>
               (let header = hd rs;
                    lines =
                      [table_bar numeric_cols rs,
                       asc ''|''
                       @ join (asc ''|'')
                           (map (\<lambda>(j, c). fmt_cell numeric_cols rs j c True) (enumerate 0 header))
                       @ asc ''|'',
                       table_bar numeric_cols rs]
                      @ map (\<lambda>r. asc ''|''
                                  @ join (asc ''|'')
                                      (map (\<lambda>j. fmt_cell numeric_cols rs j
                                                    (if j < length r then r ! j else []) False)
                                           [0..<length header])
                                  @ asc ''|'')
                            (tl rs)
                      @ [table_bar numeric_cols rs]
                in Inr (p\<lparr>p_out := p_out p @ lines @ [[]]\<rparr>)))"

definition handle_starttag :: "(ustr \<Rightarrow> int \<Rightarrow> ustr list) \<Rightarrow> ustr \<Rightarrow> swiss_html \<Rightarrow> swiss_html" where
  "handle_starttag wrap tag p =
     (if tag \<in> {asc ''h1'', asc ''h2'', asc ''h3''} then flush_buf_as_paragraph wrap p
      else if tag = asc ''p'' then flush_buf_as_paragraph wrap p
      else if tag = asc ''li'' then (flush_buf_as_paragraph wrap p)\<lparr>p_in_li := True\<rparr>
      else if tag = asc ''ul'' \<or> tag = asc ''ol'' then flush_buf_as_paragraph wrap p
      else if tag = asc ''table''
      then (flush_buf_as_paragraph wrap p)
             \<lparr>p_table := Some \<lparr>t_rows = [], t_row = None, t_cell = None, t_header_done = False\<rparr>\<rparr>
      else if tag = asc ''tr'' \<and> p_table p \<noteq> None
      then p\<lparr>p_table := map_option (\<lambda>t. t\<lparr>t_row := Some []\<rparr>) (p_table p)\<rparr>
      else if tag \<in> {asc ''th'', asc ''td''} \<and> p_table p \<noteq> None
      then p\<lparr>p_table := map_option (\<lambda>t. t\<lparr>t_cell := Some []\<rparr>) (p_table p)\<rparr>
      else if tag \<in> {asc ''tr'', asc ''th'', asc ''td''} then p
      else if tag \<in> {asc ''pre'', asc ''code''} then flush_buf_as_paragraph wrap p
      else p)"

definition end_heading :: "swiss_html \<Rightarrow> swiss_html" where
  "end_heading p =
     (let title = strip (p_buf p);
          p = p\<lparr>p_buf := []\<rparr>
      in if title \<noteq> []
         then (let underline = str_mul (asc ''-'') (min (p_width p) (max 4 (int (length title))))
               in p\<lparr>p_out := p_out p @ [title, underline, []]\<rparr>)
         else p)"

definition end_li :: "(ustr \<Rightarrow> int \<Rightarrow> ustr list) \<Rightarrow> swiss_html \<Rightarrow> swiss_html" where
  "end_li wrap p =
     (let content = join (asc '' '') (split_ws (p_buf p));
          p = p\<lparr>p_buf := [], p_in_li := False\<rparr>
      in if content \<noteq> []
         then (let bullet = BULLET;
                   wrapped = wrap_paragraphs wrap content (p_width p - int (length bullet));
                   p = (if wrapped \<noteq> []
                        then p\<lparr>p_out := p_out p @ [bullet @ hd wrapped]
                                   @ map (\<lambda>w. str_mul (asc '' '') (int (length bullet)) @ w)
                                         (tl wrapped)\<rparr>
                        else p)
               in p\<lparr>p_out := p_out p @ [[]]\<rparr>)
         else p)"

text \<open>
  The end of a cell reads \<open>self._table["cell"].split()\<close> and appends to
  \<open>self._table["row"]\<close>: either raises \<open>AttributeError\<close> when the value is \<open>None\<close>.
\<close>

definition end_cell :: "table_state \<Rightarrow> py_error + table_state" where
  "end_cell t =
     (case t_cell t of
        None \<Rightarrow> Inl AttributeError
      | Some c \<Rightarrow>
          (case t_row t of
             None \<Rightarrow> Inl AttributeError
           | Some r \<Rightarrow> Inr (t\<lparr>t_row := Some (r @ [join (asc '' '') (split_ws c)]), t_cell := None\<rparr>)))"

definition end_row :: "table_state \<Rightarrow> table_state" where
  "end_row t =
     (case t_row t of
        Some r \<Rightarrow> t\<lparr>t_rows := t_rows t @ [r], t_row := None\<rparr>
      | None \<Rightarrow> t\<lparr>t_row := None\<rparr>)"

definition handle_endtag ::
  "(ustr \<Rightarrow> int \<Rightarrow> ustr list) \<Rightarrow> (ustr \<Rightarrow> py_error + rat) \<Rightarrow> ustr \<Rightarrow> swiss_html
     \<Rightarrow> py_error + swiss_html" where
  "handle_endtag wrap float_of_str tag p =
     (if tag \<in> {asc ''h1'', asc ''h2'', asc ''h3''} then Inr (end_heading p)
      else if tag = asc ''p'' then Inr (flush_buf_as_paragraph wrap p)
      else if tag = asc ''li'' then Inr (end_li wrap p)
      else if tag = asc ''ul'' \<or> tag = asc ''ol'' then Inr (p\<lparr>p_out := p_out p @ [[]]\<rparr>)
      else case p_table p of
             Some t \<Rightarrow>
               (if tag \<in> {asc ''th'', asc ''td''}
                then (case end_cell t of
                        Inl e \<Rightarrow> Inl e
                      | Inr t' \<Rightarrow> Inr (p\<lparr>p_table := Some t'\<rparr>))
                else if tag = asc ''tr'' then Inr (p\<lparr>p_table := Some (end_row t)\<rparr>)
                else if tag = asc ''thead'' then Inr (p\<lparr>p_table := Some (t\<lparr>t_header_done := True\<rparr>)\<rparr>)
                else if tag = asc ''table''
                then (case flush_table_structured float_of_str (t_rows t) p of
                        Inl e \<Rightarrow> Inl e
                      | Inr p' \<Rightarrow> Inr (p'\<lparr>p_table := None\<rparr>))
                else if tag \<in> {asc ''pre'', asc ''code''}
                then Inr (if p_buf p \<noteq> [] then p\<lparr>p_out := p_out p @ [rstrip (p_buf p), []], p_buf := []\<rparr>
                          else p)
                else Inr p)
           | None \<Rightarrow>
               (if tag = asc ''tr'' then Inr p
                else if tag \<in> {asc ''th'', asc ''td''} then Inr p
                else if tag \<in> {asc ''pre'', asc ''code''}
                then Inr (if p_buf p \<noteq> [] then p\<lparr>p_out := p_out p @ [rstrip (p_buf p), []], p_buf := []\<rparr>
                          else p)
                else Inr p))"

definition handle_data :: "ustr \<Rightarrow> swiss_html \<Rightarrow> swiss_html" where
  "handle_data data p =
     (case p_table p of
        Some t \<Rightarrow>
          (case t_cell t of
             Some c \<Rightarrow> p\<lparr>p_table := Some (t\<lparr>t_cell := Some (c @ data)\<rparr>)\<rparr>
           | None \<Rightarrow> p\<lparr>p_buf := p_buf p @ data\<rparr>)
      | None \<Rightarrow> p\<lparr>p_buf := p_buf p @ data\<rparr>)"

fun run_events ::
  "(ustr \<Rightarrow> int \<Rightarrow> ustr list) \<Rightarrow> (ustr \<Rightarrow> py_error + rat) \<Rightarrow> html_event list \<Rightarrow> swiss_html
     \<Rightarrow> py_error + swiss_html" where
  "run_events wrap float_of_str [] p = Inr p"
| "run_events wrap float_of_str (StartTag tag # es) p =
     run_events wrap float_of_str es (handle_starttag wrap tag p)"
| "run_events wrap float_of_str (EndTag tag # es) p =
     (case handle_endtag wrap float_of_str tag p of
        Inl e \<Rightarrow> Inl e
      | Inr p' \<Rightarrow> run_events wrap float_of_str es p')"
| "run_events wrap float_of_str (Data data # es) p =
     run_events wrap float_of_str es (handle_data data p)"

text \<open>The parser as \<open>_SwissHTML(width, ascii_only)\<close> constructs it.\<close>

definition swiss_html_init :: "int \<Rightarrow> bool \<Rightarrow> swiss_html" where
  "swiss_html_init width0 ascii_only0 =
     \<lparr>p_width = width0, p_ascii_only = ascii_only0, p_out = [], p_buf = [], p_in_li = False,
      p_table = None\<rparr>"

definition html_to_swiss_ascii ::
  "(ustr \<Rightarrow> html_event list) \<Rightarrow> (ustr \<Rightarrow> int \<Rightarrow> ustr list) \<Rightarrow> (ustr \<Rightarrow> py_error + rat)
     \<Rightarrow> ustr \<Rightarrow> int \<Rightarrow> bool \<Rightarrow> py_error + ustr" where
  "html_to_swiss_ascii feed wrap float_of_str html width0 ascii_only0 =
     (let width1 = max 40 (min width0 SWISS_MAX_LINE);
          p = swiss_html_init width1 ascii_only0
      in case run_events wrap float_of_str (feed html) p of
           Inl e \<Rightarrow> Inl e
         | Inr p \<Rightarrow>
             (let p = flush_buf_as_paragraph wrap p
              in Inr (join [10] (map (\<lambda>line. slice_to line width1) (p_out p)))))"

chapter \<open>Properties\<close>

section \<open>Rounding of ties\<close>

text \<open>
  Claim C1 fails on a tie. For the value 1 of a series with maximum 4 and a bar width of 2
  the renderer fills \<open>floor(0.5 + 0.5) = 1\<close> column and the validator expects
  \<open>round(0.5) = 0\<close>: the proportion check rejects the chart the renderer produced from the
  very same data and width.
\<close>

theorem fill_rule_tie_divergence:
  "scale_bar_len 1 4 2 = 1
   \<and> expected_chars 1 4 2 = Inr 0
   \<and> map_sum id (\<lambda>t. proportions_ok (qc_block t (Some [(asc ''A'', 4), (asc ''B'', 1)]) (Some 2)))
        (render_bar_chart_ascii (asc ''T'') [(asc ''A'', 4), (asc ''B'', 1)] 2
           (asc ''bold_unicode'') True False)
      = Inr False"
proof -
  let ?rows = "[asc ''T'', asc ''[A     ] '' @ [0x2588, 0x2588] @ asc '' 4 (80%)'',
                asc ''[B     ] '' @ [0x2588] @ asc ''  1 (20%)'', asc ''         ||'',
                asc ''         01234'']"
  have renderer: "scale_bar_len 1 4 2 = 1" by code_simp
  have validator: "expected_chars 1 4 2 = Inr 0" by code_simp
  have chart: "render_bar_chart_ascii (asc ''T'') [(asc ''A'', 4), (asc ''B'', 1)] 2
                 (asc ''bold_unicode'') True False = Inr (join [10] ?rows)"
    by code_simp
  have qc: "proportions_ok (qc_block (join [10] ?rows)
              (Some [(asc ''A'', 4), (asc ''B'', 1)]) (Some 2)) = False"
    by code_simp
  show ?thesis
    unfolding chart using renderer validator qc by simp
qed

text \<open>
  Claim C4 fails on the sparkline. For the values \<open>[0, 5, 6]\<close> and the ASCII palette of four
  glyphs the index of the value 5 is computed from \<open>5/6 * 3\<close>, which is exactly 2.5 in
  binary64; \<open>round\<close> gives 2 and the glyph \<open>=\<close>, where the half-up rule of the renderer
  gives 3 (and -2 for -2.5).
\<close>

theorem sparkline_tie_rounds_to_even:
  "round_half_up (5 / 2) = 3 \<and> round_half_up (- 5 / 2) = - 2
   \<and> fmul (fdiv (fsub 5 0) (fsub 6 0)) 3 = 5 / 2
   \<and> py_round (5 / 2) = 2
   \<and> sparkline [0, 5, 6] True None = asc ''.=#''"
  by code_simp

section \<open>Row widths of the full-block band\<close>

lemma str_mul_length: "length s = 1 \<Longrightarrow> int (length (str_mul s n)) = max 0 n"
  by (simp add: str_mul_def length_concat sum_list_replicate)

lemma center_left_pad:
  fixes marg w :: int
  assumes "0 < marg"
  shows "0 \<le> marg div 2 + (marg AND w AND 1) \<and> marg div 2 + (marg AND w AND 1) \<le> marg"
proof -
  have "marg AND w AND 1 = (if odd marg \<and> odd w then 1 else 0)"
    by (simp add: and_one_eq mod_2_eq_odd flip: and.assoc)
  with assms show ?thesis by (auto elim: oddE)
qed

lemma center_length: "int (length (center s w)) = max (int (length s)) w"
  using center_left_pad [of "w - int (length s)" w]
  by (simp add: center_def Let_def)

lemma clip_or_pad_length: "0 \<le> W \<Longrightarrow> int (length (clip_or_pad row W)) = W"
  by (simp add: clip_or_pad_def slice_to_def str_mul_def asc_def)

text \<open>
  The rows the renderer of the package gets right: each bar row, made exact by the final
  cut or padding, and the two cap rows have \<open>total_width\<close> characters.
\<close>

lemma swiss_row_width:
  "0 \<le> W \<Longrightarrow> int (length (swiss_row upper L_inner B W vmax lv)) = W"
  by (simp add: swiss_row_def Let_def clip_or_pad_length)

lemma swiss_lines_widths:
  assumes "0 \<le> W"
  shows "map (\<lambda>l. int (length l)) (swiss_lines upper title labels vals W B)
       = [W, 2 + max (int (length (upper title))) (W - 2)]
         @ replicate (min (length labels) (length vals)) W @ [W]"
proof -
  have "map (\<lambda>l. int (length l)) (map (swiss_row upper Li B W vm) xs) = replicate (length xs) W"
    for Li vm and xs :: "(ustr \<times> int) list"
    using assms by (induction xs) (simp_all add: swiss_row_width)
  then show ?thesis
    using assms
    by (simp add: swiss_lines_def Let_def str_mul_length FULL_BLOCK_def center_length)
qed

text \<open>
  The legacy renderer cuts a long title to \<open>title[:W - 4]\<close> before it pads the title row
  with blocks, so all of its rows have \<open>total_width\<close> characters, the title row included,
  from a width of 2 on.
\<close>

lemma legacy_title_row_width:
  fixes W :: int and title :: ustr
  assumes "2 \<le> W"
  defines "inner0 \<equiv> asc '' '' @ title @ asc '' ''"
  defines "inner \<equiv> (if W - 2 < int (length inner0)
                      then asc '' '' @ slice_to title (max 0 (W - 4)) @ asc '' '' else inner0)"
  shows "int (length (str_mul FULL_BLOCK ((W - int (length inner)) div 2) @ inner
                      @ str_mul FULL_BLOCK (W - int (length inner) - (W - int (length inner)) div 2)))
         = W"
proof -
  have le: "int (length inner) \<le> W"
    using assms(1) unfolding inner_def inner0_def
    by (auto simp add: asc_def slice_to_def)
  then have "0 \<le> (W - int (length inner)) div 2"
    and "(W - int (length inner)) div 2 \<le> W - int (length inner)"
    by simp_all
  then show ?thesis
    by (simp add: str_mul_length FULL_BLOCK_def)
qed

lemma legacy_swiss_lines_widths:
  assumes "2 \<le> W" and "l \<in> set (legacy_swiss_lines title labels vals W bw)"
  shows "int (length l) = W"
proof -
  obtain L B V where p: "prepare_swiss_fields labels vals W bw = (L, B, V, W)"
    by (simp add: prepare_swiss_fields_def Let_def)
  have rows: "int (length (legacy_swiss_row L B V W vm lv)) = W" for vm lv
    using assms(1) by (simp add: legacy_swiss_row_def Let_def clip_or_pad_length)
  have caps: "int (length (str_mul FULL_BLOCK W)) = W"
    using assms(1) by (simp add: str_mul_length FULL_BLOCK_def)
  from assms(2) show ?thesis
    unfolding legacy_swiss_lines_def p
    using legacy_title_row_width [OF assms(1), of title] rows caps
    by (auto simp add: Let_def)
qed

text \<open>
  Claim C2 fails on the title row. With a total width of 20 and a bar width of 8 the label
  field is \<open>20 - 16 = 4\<close>, so the call is accepted; the title of 25 characters is centred in
  18 columns, which leaves it as it is, and the title row has 27 characters while the other
  rows have 20. (Every row of the legacy renderer has 20 characters for this title and
  width, by the lemma above.)
\<close>

theorem swiss_title_row_overflow:
  "map_sum id (\<lambda>t. map length (split_char 10 t))
     (render_swiss_full_block_bar ascii_upper (asc ''Quarterly sales by region'')
        [asc ''A''] [1] 20 8)
   = Inr [20, 27, 20, 20]"
  by code_simp

section \<open>Field allocation of the full-block band\<close>

text \<open>
  The renderer of the package takes the bar width as an input and shrinks nothing: it raises
  \<open>ValueError\<close> as soon as the label field \<open>total_width - (bar_width + 8)\<close> is below 4.
\<close>

lemma render_swiss_error_iff:
  assumes "labels \<noteq> []" and "vals \<noteq> []" and "length labels = length vals"
  shows "render_swiss_full_block_bar upper title labels vals W B = Inl ValueError
           \<longleftrightarrow> W - (B + 8) < 4"
  using assms by (simp add: render_swiss_full_block_bar_def Let_def)

text \<open>
  The docstring of the legacy allocator \<open>_prepare_swiss_fields\<close> promises
  \<open>L + B + V + 6 == total_width\<close>. The fields it returns add up exactly when the unshrunk
  fields leave a bar of at least one cell: whenever the shrinking branch is taken, the result
  is too wide for the row.
\<close>

lemma prepare_swiss_fields_exact_iff:
  "(case prepare_swiss_fields labels vals total_width bar_width of
      (L, B, V, W) \<Rightarrow> L + B + V + 6 = total_width)
   \<longleftrightarrow> swiss_label_field labels + swiss_value_field vals + 7 \<le> total_width"
  by (auto simp add: prepare_swiss_fields_def Let_def)

text \<open>The legacy renderer has no layout error: with as many labels as values it returns.\<close>

lemma legacy_render_returns:
  "length labels = length vals \<Longrightarrow>
     \<exists>res. legacy_render_swiss_full_block_bar title labels vals total_width bar_width = Inr res"
  by (simp add: legacy_render_swiss_full_block_bar_def)

text \<open>
  Claim C3 fails on the code, which here also breaks its own comment and docstring. The
  legacy allocator's fallback is commented \<open>shrink label before failing\<close>, and the docstrings
  of the allocator and of the renderer state \<open>L + B + V + 6 == total_width\<close>; but nothing
  fails. With the label \<open>ABCDEFGH\<close>, the value 5 and a total width of 17 the bar field would
  be \<open>17 - (10 + 2 + 6) = -1\<close>; the label field is shrunk by one to 9, the bar field of 0 is
  forced to 1, and the call returns with the fields \<open>(9, 1, 2, 17)\<close>, which add up to 18: the
  data row is cut to 17 characters and loses its right cap. With a total width of 5 the
  label field stops at 3, the bar field of \<open>-6\<close> is forced to 1, and the data row is cut to
  its first five characters, the bar and the value lost. On the same data the renderer of
  the package raises \<open>ValueError\<close> without shrinking anything.
\<close>

theorem swiss_infeasible_layout_returns:
  "prepare_swiss_fields [asc ''ABCDEFGH''] [5] 17 None = (9, 1, 2, 17)
   \<and> legacy_render_swiss_full_block_bar (asc ''T'') [asc ''ABCDEFGH''] [5] 17 None
       = Inr (join [10] [str_mul FULL_BLOCK 17,
                         str_mul FULL_BLOCK 7 @ asc '' T '' @ str_mul FULL_BLOCK 7,
                         str_mul FULL_BLOCK 17,
                         FULL_BLOCK @ asc '' [ABCDEFGH '' @ FULL_BLOCK @ asc ''  5 '',
                         str_mul FULL_BLOCK 17])
   \<and> prepare_swiss_fields [asc ''ABCDEFGH''] [5] 5 None = (3, 1, 2, 5)
   \<and> legacy_render_swiss_full_block_bar (asc ''T'') [asc ''ABCDEFGH''] [5] 5 None
       = Inr (join [10] [str_mul FULL_BLOCK 5, FULL_BLOCK @ asc '' T '' @ FULL_BLOCK,
                         str_mul FULL_BLOCK 5, FULL_BLOCK @ asc '' [AB'', str_mul FULL_BLOCK 5])
   \<and> render_swiss_full_block_bar ascii_upper (asc ''T'') [asc ''ABCDEFGH''] [5] 17 8
       = Inl ValueError"
  by code_simp

section \<open>The density field is one walk of the generator\<close>

lemma density_row_state:
  "snd (density_row t f e n st) = (xorshift32 ^^ n) st"
  by (induction n arbitrary: st)
     (simp_all add: Let_def split_beta funpow_Suc_right del: funpow.simps)

lemma density_row_length:
  "length (fst (density_row t f e n st)) = n"
  by (induction n arbitrary: st) (simp_all add: Let_def split_beta)

lemma density_row_nth:
  "x < n \<Longrightarrow>
   fst (density_row t f e n st) ! x = (if (xorshift32 ^^ Suc x) st < t then f else e)"
proof (induction n arbitrary: st x)
  case 0
  then show ?case by simp
next
  case (Suc n)
  show ?case
  proof (cases x)
    case 0
    then show ?thesis by (simp add: Let_def split_beta)
  next
    case (Suc x')
    with Suc.prems have "x' < n" by simp
    from Suc.IH [OF this, of "xorshift32 st"] Suc show ?thesis
      by (simp add: Let_def split_beta funpow_Suc_right del: funpow.simps)
  qed
qed

lemma density_rows_length:
  "length (density_rows t f e w m st) = m"
  by (induction m arbitrary: st) (simp_all add: Let_def split_beta)

lemma density_rows_nth:
  "y < m \<Longrightarrow>
   density_rows t f e w m st ! y = fst (density_row t f e w ((xorshift32 ^^ (y * w)) st))"
proof (induction m arbitrary: st y)
  case 0
  then show ?case by simp
next
  case (Suc m)
  show ?case
  proof (cases y)
    case 0
    then show ?thesis by (simp add: Let_def split_beta)
  next
    case (Suc y')
    with Suc.prems have "y' < m" by simp
    have "(xorshift32 ^^ (y' * w + w)) st = (xorshift32 ^^ (y' * w)) ((xorshift32 ^^ w) st)"
      by (simp only: funpow_add o_apply)
    then have "(xorshift32 ^^ (y' * w)) ((xorshift32 ^^ w) st) = (xorshift32 ^^ (Suc y' * w)) st"
      by (simp add: add.commute del: funpow.simps)
    with Suc.IH [OF \<open>y' < m\<close>, of "snd (density_row t f e w st)"] Suc show ?thesis
      by (simp add: Let_def split_beta density_row_state del: funpow.simps)
  qed
qed

lemma density_chars_differ: "density_fill_char a \<noteq> density_empty_char"
  by (simp add: density_fill_char_def density_empty_char_def)

text \<open>
  Claim C5, with the threshold of the code. For a positive width and height, the cell in
  row \<open>y\<close> and column \<open>x\<close> of \<open>density_field\<close> holds the fill glyph if and only if the
  generator state after \<open>y * width + x + 1\<close> steps from the seed is below
  \<open>int(density * 0xFFFFFFFF)\<close>, the density being clamped into \<open>[0, 1]\<close>; every other
  cell holds the space.
\<close>

theorem density_field_cell:
  assumes "0 < width" and "0 < height" and "y < nat height" and "x < nat width"
  shows "(density_field width height density ascii_only seed ! y ! x = density_fill_char ascii_only
           \<longleftrightarrow> (xorshift32 ^^ (y * nat width + x + 1)) seed < density_threshold density)
       \<and> (density_field width height density ascii_only seed ! y ! x \<noteq> density_fill_char ascii_only
           \<longrightarrow> density_field width height density ascii_only seed ! y ! x = density_empty_char)"
proof -
  let ?t = "density_threshold density" and ?f = "density_fill_char ascii_only"
  let ?s = "(xorshift32 ^^ (y * nat width)) seed"
  have idx: "Suc x + y * nat width = y * nat width + x + 1"
    by simp
  have "(xorshift32 ^^ (Suc x + y * nat width)) seed = (xorshift32 ^^ Suc x) ?s"
    by (simp only: funpow_add o_apply)
  then have steps: "(xorshift32 ^^ Suc x) ?s = (xorshift32 ^^ (y * nat width + x + 1)) seed"
    by (simp only: idx)
  have field: "density_field width height density ascii_only seed
      = density_rows ?t ?f density_empty_char (nat width) (nat height) seed"
    using assms by (simp add: density_field_def)
  have row: "density_field width height density ascii_only seed ! y
      = fst (density_row ?t ?f density_empty_char (nat width) ?s)"
    unfolding field using assms(3) by (rule density_rows_nth)
  have cell: "density_field width height density ascii_only seed ! y ! x
      = (if (xorshift32 ^^ (y * nat width + x + 1)) seed < ?t then ?f else density_empty_char)"
    unfolding row using density_row_nth [OF assms(4), of ?t ?f density_empty_char ?s]
    by (simp only: steps)
  show ?thesis
    unfolding cell using density_chars_differ [of ascii_only] by (simp del: funpow.simps)
qed

theorem density_field_cell_witness:
  "(0::int) < 2 \<and> (0::int) < 2 \<and> 1 < nat 2 \<and> 0 < nat 2
   \<and> density_field 2 2 (1 / 2) True 42 ! 1 ! 0 = density_fill_char True
   \<and> (xorshift32 ^^ (1 * nat 2 + 0 + 1)) 42 < density_threshold (1 / 2)"
proof -
  have s1: "xorshift32 42 = 11355432" by (simp add: xorshift32_def)
  have s2: "xorshift32 11355432 = 2836018348" by (simp add: xorshift32_def)
  have s3: "xorshift32 2836018348 = 476557059" by (simp add: xorshift32_def)
  have t: "density_threshold (1 / 2) = 2147483647" by code_simp
  have c: "(xorshift32 ^^ (1 * nat 2 + 0 + 1)) 42 < density_threshold (1 / 2)"
    by (simp add: numeral_2_eq_2 s1 s2 s3 t)
  have h: "(0::int) < 2" "(0::int) < 2" "1 < nat 2" "0 < nat 2" by simp_all
  from density_field_cell [OF h, of "1 / 2" True 42] c h show ?thesis by blast
qed

text \<open>
  Claim C5 as stated, with the threshold \<open>density * 2^32\<close>, fails: from seed \<open>0x5E6CFCE7\<close> one
  step gives the state \<open>0xFFFFFFFF\<close>, which is below \<open>1 * 2^32\<close>, yet at density 1 the
  cell is empty.
\<close>

theorem density_field_threshold_counterexample:
  "\<not> (density_field 1 1 1 True 1584200935 ! 0 ! 0 = density_fill_char True
       \<longleftrightarrow> rat_of_int ((xorshift32 ^^ (0 * nat 1 + 0 + 1)) 1584200935) < 1 * 2 ^ 32)"
proof -
  have cell: "density_field 1 1 1 True 1584200935 ! 0 ! 0 = density_empty_char"
    by code_simp
  have state: "(xorshift32 ^^ (0 * nat 1 + 0 + 1)) 1584200935 = 4294967295"
    by (simp add: xorshift32_def)
  show ?thesis
    unfolding cell state using density_chars_differ [of True] by simp
qed

section \<open>Swiss currency format\<close>

lemma digits_of_range: "0 \<le> n \<Longrightarrow> c \<in> set (digits_of n) \<Longrightarrow> 48 \<le> c \<and> c \<le> 57"
proof (induction n arbitrary: c rule: digits_of.induct)
  case (1 n)
  show ?case
  proof (cases "n < 10")
    case True
    with "1.prems" show ?thesis by (simp add: digits_of.simps [of n])
  next
    case False
    with "1.prems" have "c \<in> set (digits_of (n div 10)) \<or> c = 48 + n mod 10"
      by (auto simp add: digits_of.simps [of n])
    then show ?thesis
    proof
      assume "c \<in> set (digits_of (n div 10))"
      with "1.IH" [OF False] "1.prems"(1) show ?thesis by simp
    next
      assume "c = 48 + n mod 10"
      moreover have "0 \<le> n mod 10" "n mod 10 < 10" by simp_all
      ultimately show ?thesis by linarith
    qed
  qed
qed

lemma split_char_none: "c \<notin> set a \<Longrightarrow> split_char c a = [a]"
  by (induction a) auto

lemma split_char_once:
  "c \<notin> set a \<Longrightarrow> c \<notin> set b \<Longrightarrow> split_char c (a @ c # b) = [a, b]"
  by (induction a) (auto simp: split_char_none)

lemma currency_groups_append:
  "currency_groups sep i (r1 @ r2)
     = currency_groups sep i r1 @ currency_groups sep (i + length r1) r2"
  by (induction r1 arbitrary: i) simp_all

lemma currency_groups_short:
  "i + length r \<le> 3 \<Longrightarrow> currency_groups sep i r = map (\<lambda>d. [d]) r"
proof (induction r arbitrary: i)
  case Nil
  then show ?case by simp
next
  case (Cons d r)
  then have "i < 3" by simp
  then have "\<not> (0 < i \<and> i mod 3 = 0)" by auto
  with Cons show ?case by simp
qed

lemma currency_groups_shift:
  "0 < i \<Longrightarrow> currency_groups sep (i + 3) r = currency_groups sep i r"
proof (induction r arbitrary: i)
  case Nil
  then show ?case by simp
next
  case (Cons d r)
  from Cons.IH [of "Suc i"] Cons.prems show ?case by simp
qed

lemma currency_groups_three:
  "r \<noteq> [] \<Longrightarrow> currency_groups sep 3 r = sep # currency_groups sep 0 r"
proof (cases r)
  case Nil
  then show "r \<noteq> [] \<Longrightarrow> ?thesis" by simp
next
  case (Cons d r')
  have "currency_groups sep (Suc 0 + 3) r' = currency_groups sep (Suc 0) r'"
    by (rule currency_groups_shift) simp
  with Cons show ?thesis by simp
qed

lemma concat_singletons: "concat (map (\<lambda>d. [d]) xs) = xs"
  by (induction xs) simp_all

lemma currency_groups_grouped:
  "concat (rev (currency_groups sep 0 (rev ds))) = grouped_in_threes sep ds"
proof (induction sep ds rule: grouped_in_threes.induct)
  case (1 sep s)
  show ?case
  proof (cases "length s \<le> 3")
    case True
    then have "currency_groups sep 0 (rev s) = map (\<lambda>d. [d]) (rev s)"
      by (simp add: currency_groups_short)
    with True show ?thesis
      by (simp add: grouped_in_threes.simps [of sep s] rev_map [symmetric] concat_singletons)
  next
    case False
    let ?a = "take (length s - 3) s" and ?b = "drop (length s - 3) s"
    have s: "rev s = rev ?b @ rev ?a"
      by (metis append_take_drop_id rev_append)
    have lb: "length (rev ?b) = 3" using False by simp
    have a: "rev ?a \<noteq> []" using False by auto
    have "currency_groups sep 0 (rev s)
        = currency_groups sep 0 (rev ?b) @ currency_groups sep 3 (rev ?a)"
      unfolding s using lb by (simp add: currency_groups_append)
    also have "\<dots> = map (\<lambda>d. [d]) (rev ?b) @ sep # currency_groups sep 0 (rev ?a)"
      using lb a by (simp add: currency_groups_short currency_groups_three)
    finally have "concat (rev (currency_groups sep 0 (rev s)))
        = concat (rev (currency_groups sep 0 (rev ?a))) @ sep @ ?b"
      by (simp add: rev_map [symmetric] concat_singletons)
    with "1.IH" [OF False] False show ?thesis
      by (simp add: grouped_in_threes.simps [of sep s])
  qed
qed


lemma round_half_even_nonneg: "0 \<le> x \<Longrightarrow> 0 \<le> round_half_even x"
  by (simp add: round_half_even_def Let_def)

lemma asc_simps:
  "asc [] = []" "asc (c # cs) = of_char c # asc cs"
  by (simp_all add: asc_def)

lemma two_digits:
  assumes "0 \<le> m" and "m < 100"
  shows "zfill 2 (digits_of m) = [48 + m div 10, 48 + m mod 10]"
proof (cases "m < 10")
  case True
  with assms show ?thesis by (simp add: zfill_def digits_of.simps [of m])
next
  case False
  with assms have "m div 10 < 10" by simp
  with False show ?thesis
    by (simp add: zfill_def digits_of.simps [of m] digits_of.simps [of "m div 10"])
qed

lemma grouped_in_threes_set:
  "set (grouped_in_threes sep s) \<subseteq> set sep \<union> set s"
proof (induction sep s rule: grouped_in_threes.induct)
  case (1 sep s)
  show ?case
  proof (cases "length s \<le> 3")
    case True
    then show ?thesis by (simp add: grouped_in_threes.simps [of sep s])
  next
    case False
    have "set (take (length s - 3) s) \<subseteq> set s" "set (drop (length s - 3) s) \<subseteq> set s"
      by (auto dest: in_set_takeD in_set_dropD)
    with "1.IH" [OF False] False show ?thesis
      by (auto simp add: grouped_in_threes.simps [of sep s])
  qed
qed

lemma currency_symbol_no_minus:
  "45 \<notin> set (case map_of CURRENCY_SYMBOLS cur of Some s \<Rightarrow> s | None \<Rightarrow> asc ''$'')"
  by (simp add: CURRENCY_SYMBOLS_def asc_simps)

lemma format_currency_parts:
  fixes val :: rat
  defines "n \<equiv> round_half_even (\<bar>val\<bar> * 100)"
  shows "format_currency val cur a =
     (if val < 0 then asc ''('' else [])
     @ (case map_of CURRENCY_SYMBOLS cur of Some s \<Rightarrow> s | None \<Rightarrow> asc ''$'')
     @ grouped_in_threes (if a then asc '' '' else [0x2009]) (digits_of (n div 100))
     @ asc ''.''
     @ [48 + n mod 100 div 10, 48 + n mod 10]
     @ (if val < 0 then asc '')'' else [])"
proof -
  let ?ip = "digits_of (n div 100)" and ?fp = "zfill 2 (digits_of (n mod 100))"
  have n0: "0 \<le> n" unfolding n_def by (rule round_half_even_nonneg) simp
  have fp: "?fp = [48 + n mod 100 div 10, 48 + n mod 10]"
    using two_digits [of "n mod 100"] by (simp add: mod_mod_cancel)
  have ip_dot: "46 \<notin> set ?ip"
    using digits_of_range [of "n div 100" 46] n0 by (auto simp: pos_imp_zdiv_nonneg_iff)
  have nonneg: "0 \<le> n mod 100 div 10" "0 \<le> n mod 10"
    by (simp_all add: pos_imp_zdiv_nonneg_iff)
  have fp_dot: "46 \<notin> set ?fp"
    unfolding fp using nonneg by auto
  have fmt: "fmt_fixed 2 \<bar>val\<bar> = ?ip @ 46 # ?fp"
    by (simp add: fmt_fixed_def n_def asc_simps Let_def)
  have parts: "split_char 46 (fmt_fixed 2 \<bar>val\<bar>) = [?ip, ?fp]"
    unfolding fmt using ip_dot fp_dot by (rule split_char_once)
  have grp: "\<not> 3 < length ?ip \<Longrightarrow> grouped_in_threes sep ?ip = ?ip" for sep
    by (simp add: grouped_in_threes.simps [of sep ?ip])
  show ?thesis
    unfolding format_currency_def Let_def parts
    by (simp add: currency_groups_grouped grp fp REGULAR_SPACE_def THIN_SPACE_def asc_simps)
qed

lemma format_currency_no_minus:
  "45 \<notin> set (format_currency val cur a)"
proof -
  let ?n = "round_half_even (\<bar>val\<bar> * 100)"
  have n0: "0 \<le> ?n" by (rule round_half_even_nonneg) simp
  have "45 \<notin> set (digits_of (?n div 100))"
    using digits_of_range [of "?n div 100" 45] n0 by (auto simp: pos_imp_zdiv_nonneg_iff)
  then have "45 \<notin> set (grouped_in_threes (if a then asc '' '' else [0x2009])
                          (digits_of (?n div 100)))"
    using grouped_in_threes_set [of "if a then asc '' '' else [0x2009]" "digits_of (?n div 100)"]
    by (auto simp: asc_simps)
  moreover have "48 + ?n mod 100 div 10 \<noteq> 45" "48 + ?n mod 10 \<noteq> 45"
  proof -
    have "0 \<le> ?n mod 100 div 10" "0 \<le> ?n mod 10"
      by (simp_all add: pos_imp_zdiv_nonneg_iff)
    then show "48 + ?n mod 100 div 10 \<noteq> 45" "48 + ?n mod 10 \<noteq> 45"
      by linarith+
  qed
  ultimately show ?thesis
    using currency_symbol_no_minus [of cur]
    by (simp add: format_currency_parts asc_simps)
qed

text \<open>
  Claim C6. For every value, \<open>format_currency\<close> renders the absolute value rounded to cents
  with exactly two fractional digits after the point, the integer digits grouped in threes
  from the right with an ASCII space when \<open>ascii_only\<close> and the thin space \<open>U+2009\<close>
  otherwise, after the symbol of the currency code from the table (\<open>$\<close> for a code that is
  not in it); a negative value is wrapped in parentheses; the result never contains a minus
  sign; and \<open>format_currency(-456789.12, "USD", ascii_only=True)\<close> is \<open>($456 789.12)\<close>.
\<close>

theorem format_currency_swiss:
  "format_currency val cur a =
     (if val < 0 then asc ''('' else [])
     @ (case map_of CURRENCY_SYMBOLS cur of Some s \<Rightarrow> s | None \<Rightarrow> asc ''$'')
     @ grouped_in_threes (if a then asc '' '' else [0x2009])
         (digits_of (round_half_even (\<bar>val\<bar> * 100) div 100))
     @ asc ''.''
     @ [48 + round_half_even (\<bar>val\<bar> * 100) mod 100 div 10,
        48 + round_half_even (\<bar>val\<bar> * 100) mod 10]
     @ (if val < 0 then asc '')'' else [])
   \<and> of_char CHR ''-'' \<notin> set (format_currency val cur a)
   \<and> format_currency (fl (- 45678912 / 100)) (asc ''USD'') True = asc ''($456 789.12)''"
proof -
  have "format_currency (fl (- 45678912 / 100)) (asc ''USD'') True = asc ''($456 789.12)''"
    by code_simp
  with format_currency_parts [of val cur a] format_currency_no_minus [of val cur a]
  show ?thesis by simp
qed

theorem format_currency_swiss_witness:
  "of_char CHR ''-'' \<notin> set (format_currency (fl (- 45678912 / 100)) (asc ''USD'') True)
   \<and> format_currency (fl (- 45678912 / 100)) (asc ''USD'') True = asc ''($456 789.12)''"
  using format_currency_swiss [of "fl (- 45678912 / 100)" "asc ''USD''" True] by blast

section \<open>Text that is not numeric-like passes through\<close>

text \<open>
  Claim C8. When \<open>is_numeric_like\<close> returns \<open>False\<close> on a text, \<open>normalize_number\<close> returns
  that text unchanged, whatever the currency and the style, and raises nothing.
\<close>

theorem normalize_number_passthrough:
  assumes "is_numeric_like float_of_str text = Inr False"
  shows "normalize_number float_of_str is_digit text currency ascii_only = Inr text"
  using assms by (simp add: normalize_number_def)

theorem normalize_number_passthrough_witness:
  "is_numeric_like ascii_float (asc ''n/a'') = Inr False
   \<and> normalize_number ascii_float is_ascii_digit (asc ''n/a'') (asc ''USD'') True = Inr (asc ''n/a'')"
proof -
  have h: "is_numeric_like ascii_float (asc ''n/a'') = Inr False" by code_simp
  from normalize_number_passthrough [OF h] h show ?thesis by blast
qed

section \<open>The HTML transformer clamps its width\<close>

lemma split_char_nonempty: "split_char c s \<noteq> []"
  by (induction s) (auto split: list.split)

lemma split_char_append:
  "split_char c (x @ c # rest) = split_char c x @ split_char c rest"
proof (induction x)
  case Nil
  then show ?case by simp
next
  case (Cons d ds)
  obtain p ps where "split_char c ds = p # ps"
    using split_char_nonempty [of c ds] by (cases "split_char c ds") auto
  with Cons show ?case by simp
qed

lemma split_char_length:
  "line \<in> set (split_char c s) \<Longrightarrow> length line \<le> length s"
proof (induction s arbitrary: line)
  case Nil
  then show ?case by simp
next
  case (Cons d ds)
  obtain p ps where ps: "split_char c ds = p # ps"
    using split_char_nonempty [of c ds] by (cases "split_char c ds") auto
  have "length p \<le> length ds" and "\<And>l. l \<in> set ps \<Longrightarrow> length l \<le> length ds"
    using Cons.IH ps by auto
  with Cons.prems ps show ?case
    by (auto split: if_splits) fastforce+
qed

lemma join_Cons_Cons: "join sep (x # y # ys) = x @ sep @ join sep (y # ys)"
  by (simp add: join_def)

lemma lines_of_join_bounded:
  assumes "\<forall>y \<in> set ys. length y \<le> n" and "line \<in> set (split_char 10 (join [10] ys))"
  shows "length line \<le> n"
  using assms
proof (induction ys arbitrary: line rule: induct_list012)
  case 1
  then show ?case by (simp add: join_def)
next
  case (2 y)
  then have "length line \<le> length y" by (simp add: join_def split_char_length)
  with 2 show ?case by simp
next
  case (3 y z zs)
  from "3.prems"(2) have "line \<in> set (split_char 10 y) \<or> line \<in> set (split_char 10 (join [10] (z # zs)))"
    by (simp add: join_Cons_Cons split_char_append)
  then show ?case
  proof
    assume "line \<in> set (split_char 10 y)"
    then have "length line \<le> length y" by (rule split_char_length)
    with "3.prems"(1) show ?thesis by simp
  next
    assume "line \<in> set (split_char 10 (join [10] (z # zs)))"
    with "3.IH"(2) "3.prems"(1) show ?thesis by simp
  qed
qed

lemma slice_to_length: "0 \<le> k \<Longrightarrow> int (length (slice_to s k)) \<le> k"
  by (simp add: slice_to_def)

lemma flush_buf_as_paragraph_width:
  "p_width (flush_buf_as_paragraph wrap p) = p_width p"
  by (simp add: flush_buf_as_paragraph_def Let_def)

lemma handle_starttag_width: "p_width (handle_starttag wrap tag p) = p_width p"
  by (simp add: handle_starttag_def flush_buf_as_paragraph_width)

lemma handle_data_width: "p_width (handle_data d p) = p_width p"
  by (simp add: handle_data_def split: option.split)

lemma handle_endtag_width:
  "handle_endtag wrap float_of_str tag p = Inr p' \<Longrightarrow> p_width p' = p_width p"
  by (auto simp add: handle_endtag_def end_heading_def end_li_def flush_table_structured_def
        flush_buf_as_paragraph_width Let_def
        split: if_splits option.splits sum.splits)

text \<open>No handler assigns \<open>self.width\<close>: at every point of a parse it is the width of the start.\<close>

lemma run_events_width:
  "run_events wrap float_of_str es p = Inr p' \<Longrightarrow> p_width p' = p_width p"
proof (induction es arbitrary: p)
  case Nil
  then show ?case by simp
next
  case (Cons e es)
  show ?case
  proof (cases e)
    case (StartTag tag)
    with Cons show ?thesis by (simp add: handle_starttag_width)
  next
    case (EndTag tag)
    with Cons.prems obtain q where q: "handle_endtag wrap float_of_str tag p = Inr q"
      and r: "run_events wrap float_of_str es q = Inr p'"
      by (auto split: sum.splits)
    from Cons.IH [OF r] handle_endtag_width [OF q] show ?thesis by simp
  next
    case (Data d)
    with Cons show ?thesis by (simp add: handle_data_width)
  qed
qed

lemma html_to_swiss_ascii_unfold:
  "html_to_swiss_ascii feed wrap float_of_str html w a =
     (case run_events wrap float_of_str (feed html) (swiss_html_init (max 40 (min w 80)) a) of
        Inl e \<Rightarrow> Inl e
      | Inr p \<Rightarrow> Inr (join [10] (map (take (nat (max 40 (min w 80))))
                                   (p_out (flush_buf_as_paragraph wrap p)))))"
  by (simp add: html_to_swiss_ascii_def SWISS_MAX_LINE_def Let_def slice_to_def le_max_iff_disj
        split: sum.split)

lemma rstrip_id: "d \<noteq> [] \<Longrightarrow> \<not> is_space (last d) \<Longrightarrow> rstrip d = d"
  by (cases d rule: rev_cases) (simp_all add: rstrip_def)

lemma asc_unfold:
  "asc [] = []" "asc (c # cs) = of_char c # asc cs"
  by (simp_all add: asc_def)

lemma split_ws_Nil: "split_ws [] = []"
  by (simp add: split_ws_def)

lemma join_Nil: "join sep [] = []"
  by (simp add: join_def)

lemma pre_block_cut:
  assumes "d \<noteq> []" and "\<not> is_space (last d)"
    and "feed html = [StartTag (asc ''pre''), Data d, EndTag (asc ''pre'')]"
  shows "html_to_swiss_ascii feed wrap float_of_str html w a
           = Inr (take (nat (max 40 (min w 80))) d @ [10])"
  using assms
  by (simp add: html_to_swiss_ascii_unfold swiss_html_init_def handle_starttag_def
        handle_endtag_def handle_data_def flush_buf_as_paragraph_def split_ws_Nil join_Nil
        rstrip_id join_def asc_unfold Let_def)

lemma paragraph_wrapped:
  assumes "join (asc '' '') (split_ws d) \<noteq> []"
    and "feed html = [StartTag (asc ''p''), Data d, EndTag (asc ''p'')]"
  shows "html_to_swiss_ascii feed wrap float_of_str html w a
           = Inr (join [10] (map (take (nat (max 40 (min w 80))))
                               (wrap_paragraphs wrap (join (asc '' '') (split_ws d))
                                  (max 40 (min w 80)) @ [[]])))"
  using assms
  by (simp add: html_to_swiss_ascii_unfold swiss_html_init_def handle_starttag_def
        handle_endtag_def handle_data_def flush_buf_as_paragraph_def split_ws_Nil join_Nil
        asc_unfold Let_def)

lemma heading_underlined:
  assumes "strip d \<noteq> []"
    and "feed html = [StartTag (asc ''h1''), Data d, EndTag (asc ''h1'')]"
  shows "html_to_swiss_ascii feed wrap float_of_str html w a
           = Inr (join [10] (map (take (nat (max 40 (min w 80))))
                               [strip d,
                                str_mul (asc ''-'')
                                  (min (max 40 (min w 80)) (max 4 (int (length (strip d))))),
                                []]))"
  using assms
  by (simp add: html_to_swiss_ascii_unfold swiss_html_init_def handle_starttag_def
        handle_endtag_def handle_data_def flush_buf_as_paragraph_def end_heading_def
        split_ws_Nil join_Nil asc_unfold Let_def)

lemma list_item_wrapped:
  assumes "join (asc '' '') (split_ws d) \<noteq> []"
    and "feed html = [StartTag (asc ''li''), Data d, EndTag (asc ''li'')]"
    and "ws = wrap_paragraphs wrap (join (asc '' '') (split_ws d)) (max 40 (min w 80) - 2)"
  shows "html_to_swiss_ascii feed wrap float_of_str html w a
           = Inr (join [10] (map (take (nat (max 40 (min w 80))))
                               ((if ws \<noteq> []
                                 then (asc ''- '' @ hd ws) # map (\<lambda>x. asc ''  '' @ x) (tl ws)
                                 else [])
                                @ [[]])))"
  using assms
  by (simp add: html_to_swiss_ascii_unfold swiss_html_init_def handle_starttag_def
        handle_endtag_def handle_data_def flush_buf_as_paragraph_def end_li_def BULLET_def
        str_mul_def numeral_2_eq_2 split_ws_Nil join_Nil asc_unfold Let_def)

text \<open>
  Claim C9. \<open>html_to_swiss_ascii\<close> works with the width \<open>max(40, min(width, 80))\<close> and with no
  other: a call with any width returns what the call with the clamped width returns, and every
  line of the returned text has at most that many characters; the text is the output of the
  parser constructed with the clamped width, each line cut to it, and the parser's width is the
  clamped one after any prefix of the events. At each place that reads the width the clamped
  one decides the text: a \<open>pre\<close> block of one line is cut to its first \<open>max(40, min(width, 80))\<close>
  characters, a paragraph is wrapped by \<open>wrap\<close> at that width, a list item at that width less
  the two characters of the bullet, and the rule under a heading has
  \<open>min(max(40, min(width, 80)), max(4, len(title)))\<close> dashes.
\<close>

theorem html_width_clamped:
  "html_to_swiss_ascii feed wrap float_of_str html w a
     = html_to_swiss_ascii feed wrap float_of_str html (max 40 (min w 80)) a
   \<and> (\<forall>res line.
         html_to_swiss_ascii feed wrap float_of_str html w a = Inr res
         \<and> line \<in> set (split_char 10 res)
         \<longrightarrow> int (length line) \<le> max 40 (min w 80))
   \<and> html_to_swiss_ascii feed wrap float_of_str html w a
       = (case run_events wrap float_of_str (feed html) (swiss_html_init (max 40 (min w 80)) a) of
            Inl e \<Rightarrow> Inl e
          | Inr p \<Rightarrow> Inr (join [10] (map (take (nat (max 40 (min w 80))))
                                       (p_out (flush_buf_as_paragraph wrap p)))))
   \<and> (\<forall>es1 es2 p.
         feed html = es1 @ es2
         \<and> run_events wrap float_of_str es1 (swiss_html_init (max 40 (min w 80)) a) = Inr p
         \<longrightarrow> p_width p = max 40 (min w 80))
   \<and> (\<forall>d. d \<noteq> [] \<and> \<not> is_space (last d)
            \<and> feed html = [StartTag (asc ''pre''), Data d, EndTag (asc ''pre'')]
         \<longrightarrow> html_to_swiss_ascii feed wrap float_of_str html w a
               = Inr (take (nat (max 40 (min w 80))) d @ [10]))
   \<and> (\<forall>d. join (asc '' '') (split_ws d) \<noteq> []
            \<and> feed html = [StartTag (asc ''p''), Data d, EndTag (asc ''p'')]
         \<longrightarrow> html_to_swiss_ascii feed wrap float_of_str html w a
               = Inr (join [10] (map (take (nat (max 40 (min w 80))))
                                   (wrap_paragraphs wrap (join (asc '' '') (split_ws d))
                                      (max 40 (min w 80)) @ [[]]))))
   \<and> (\<forall>d ws. join (asc '' '') (split_ws d) \<noteq> []
            \<and> feed html = [StartTag (asc ''li''), Data d, EndTag (asc ''li'')]
            \<and> ws = wrap_paragraphs wrap (join (asc '' '') (split_ws d)) (max 40 (min w 80) - 2)
         \<longrightarrow> html_to_swiss_ascii feed wrap float_of_str html w a
               = Inr (join [10] (map (take (nat (max 40 (min w 80))))
                                   ((if ws \<noteq> []
                                     then (asc ''- '' @ hd ws) # map (\<lambda>x. asc ''  '' @ x) (tl ws)
                                     else [])
                                    @ [[]]))))
   \<and> (\<forall>d. strip d \<noteq> []
            \<and> feed html = [StartTag (asc ''h1''), Data d, EndTag (asc ''h1'')]
         \<longrightarrow> html_to_swiss_ascii feed wrap float_of_str html w a
               = Inr (join [10] (map (take (nat (max 40 (min w 80))))
                                   [strip d,
                                    str_mul (asc ''-'')
                                      (min (max 40 (min w 80)) (max 4 (int (length (strip d))))),
                                    []])))"
proof -
  let ?w = "max 40 (min w 80)"
  have "max 40 (min ?w 80) = ?w" by simp
  then have c1: "html_to_swiss_ascii feed wrap float_of_str html w a
     = html_to_swiss_ascii feed wrap float_of_str html ?w a"
    by (simp add: html_to_swiss_ascii_def SWISS_MAX_LINE_def)
  have c2: "\<forall>res line.
         html_to_swiss_ascii feed wrap float_of_str html w a = Inr res
         \<and> line \<in> set (split_char 10 res)
         \<longrightarrow> int (length line) \<le> ?w"
  proof (intro allI impI)
    fix res line
    assume h: "html_to_swiss_ascii feed wrap float_of_str html w a = Inr res
               \<and> line \<in> set (split_char 10 res)"
    then obtain ls where res: "res = join [10] (map (\<lambda>l. slice_to l ?w) ls)"
      by (auto simp add: html_to_swiss_ascii_def SWISS_MAX_LINE_def Let_def split: sum.splits)
    have "\<forall>y \<in> set (map (\<lambda>l. slice_to l ?w) ls). length y \<le> nat ?w"
      using slice_to_length [of ?w] by (auto simp: slice_to_def)
    with h res have "length line \<le> nat ?w"
      using lines_of_join_bounded [of "map (\<lambda>l. slice_to l ?w) ls" "nat ?w" line] by blast
    then show "int (length line) \<le> ?w" by simp
  qed
  have c4: "\<forall>es1 es2 p.
         feed html = es1 @ es2
         \<and> run_events wrap float_of_str es1 (swiss_html_init ?w a) = Inr p
         \<longrightarrow> p_width p = ?w"
  proof (intro allI impI)
    fix es1 es2 p
    assume "feed html = es1 @ es2
         \<and> run_events wrap float_of_str es1 (swiss_html_init ?w a) = Inr p"
    then have "p_width p = p_width (swiss_html_init ?w a)"
      using run_events_width by blast
    then show "p_width p = ?w" by (simp add: swiss_html_init_def)
  qed
  show ?thesis
    apply (intro conjI)
           apply (rule c1)
          apply (rule c2)
         apply (rule html_to_swiss_ascii_unfold)
        apply (rule c4)
       apply (intro allI impI, elim conjE, erule (2) pre_block_cut)
      apply (intro allI impI, elim conjE, erule (1) paragraph_wrapped)
     apply (intro allI impI, elim conjE, erule (2) list_item_wrapped)
    apply (intro allI impI, elim conjE, erule (1) heading_underlined)
    done
qed

theorem html_width_clamped_witness:
  "html_to_swiss_ascii (\<lambda>_. [StartTag (asc ''pre''), Data (replicate 50 120), EndTag (asc ''pre'')])
       (\<lambda>s n. [take (nat n) s, drop (nat n) s]) ascii_float (asc ''<pre>...</pre>'') 60 True
     = Inr (replicate 50 120 @ [10])
   \<and> html_to_swiss_ascii (\<lambda>_. [StartTag (asc ''pre''), Data (replicate 50 120), EndTag (asc ''pre'')])
       (\<lambda>s n. [take (nat n) s, drop (nat n) s]) ascii_float (asc ''<pre>...</pre>'') 10 True
     = Inr (replicate 40 120 @ [10])
   \<and> html_to_swiss_ascii (\<lambda>_. [StartTag (asc ''pre''), Data (replicate 100 120), EndTag (asc ''pre'')])
       (\<lambda>s n. [take (nat n) s, drop (nat n) s]) ascii_float (asc ''<pre>...</pre>'') 200 True
     = Inr (replicate 80 120 @ [10])
   \<and> replicate 40 120 \<in> set (split_char 10 (replicate 40 120 @ [10]))
   \<and> int (length (replicate 40 (120::int))) \<le> max 40 (min 10 80)
   \<and> run_events (\<lambda>s n. [take (nat n) s, drop (nat n) s]) ascii_float
        [StartTag (asc ''pre''), Data (replicate 50 120)] (swiss_html_init 60 True)
      = Inr \<lparr>p_width = 60, p_ascii_only = True, p_out = [], p_buf = replicate 50 120,
             p_in_li = False, p_table = None\<rparr>
   \<and> html_to_swiss_ascii (\<lambda>_. [StartTag (asc ''p''), Data (replicate 100 120), EndTag (asc ''p'')])
       (\<lambda>s n. [take (nat n) s, drop (nat n) s]) ascii_float (asc ''<p>...</p>'') 60 True
     = Inr (replicate 60 120 @ [10] @ replicate 40 120 @ [10])
   \<and> html_to_swiss_ascii (\<lambda>_. [StartTag (asc ''li''), Data (replicate 100 120), EndTag (asc ''li'')])
       (\<lambda>s n. [take (nat n) s, drop (nat n) s]) ascii_float (asc ''<li>...</li>'') 60 True
     = Inr (asc ''- '' @ replicate 58 120 @ [10] @ asc ''  '' @ replicate 42 120 @ [10])
   \<and> html_to_swiss_ascii (\<lambda>_. [StartTag (asc ''h1''), Data (replicate 70 120), EndTag (asc ''h1'')])
       (\<lambda>s n. [take (nat n) s, drop (nat n) s]) ascii_float (asc ''<h1>...</h1>'') 60 True
     = Inr (replicate 60 120 @ [10] @ replicate 60 45 @ [10])"
proof -
  let ?wrap = "\<lambda>(s::ustr) (n::int). [take (nat n) s, drop (nat n) s]"
  let ?pre50 = "\<lambda>_::ustr. [StartTag (asc ''pre''), Data (replicate 50 120), EndTag (asc ''pre'')]"
  let ?pre100 = "\<lambda>_::ustr. [StartTag (asc ''pre''), Data (replicate 100 120), EndTag (asc ''pre'')]"
  let ?par = "\<lambda>_::ustr. [StartTag (asc ''p''), Data (replicate 100 120), EndTag (asc ''p'')]"
  let ?li = "\<lambda>_::ustr. [StartTag (asc ''li''), Data (replicate 100 120), EndTag (asc ''li'')]"
  let ?h1 = "\<lambda>_::ustr. [StartTag (asc ''h1''), Data (replicate 70 120), EndTag (asc ''h1'')]"
  let ?html = "asc ''<pre>...</pre>''"
  note t60 = html_width_clamped [of ?pre50 ?wrap ascii_float ?html 60 True]
  note t10 = html_width_clamped [of ?pre50 ?wrap ascii_float ?html 10 True]
  note t200 = html_width_clamped [of ?pre100 ?wrap ascii_float ?html 200 True]
  note tp = html_width_clamped [of ?par ?wrap ascii_float "asc ''<p>...</p>''" 60 True]
  note tl = html_width_clamped [of ?li ?wrap ascii_float "asc ''<li>...</li>''" 60 True]
  note th = html_width_clamped [of ?h1 ?wrap ascii_float "asc ''<h1>...</h1>''" 60 True]
  have sp: "\<not> is_space 120" by (simp add: is_space_def)
  have r60: "html_to_swiss_ascii ?pre50 ?wrap ascii_float ?html 60 True
               = Inr (replicate 50 120 @ [10])"
    using t60 [THEN conjunct2, THEN conjunct2, THEN conjunct2, THEN conjunct2, THEN conjunct1,
               rule_format, of "replicate 50 120"] sp
    by simp
  have r10: "html_to_swiss_ascii ?pre50 ?wrap ascii_float ?html 10 True
               = Inr (replicate 40 120 @ [10])"
    using t10 [THEN conjunct2, THEN conjunct2, THEN conjunct2, THEN conjunct2, THEN conjunct1,
               rule_format, of "replicate 50 120"] sp
    by simp
  have r200: "html_to_swiss_ascii ?pre100 ?wrap ascii_float ?html 200 True
               = Inr (replicate 80 120 @ [10])"
    using t200 [THEN conjunct2, THEN conjunct2, THEN conjunct2, THEN conjunct2, THEN conjunct1,
               rule_format, of "replicate 100 120"] sp
    by simp
  have m: "replicate 40 120 \<in> set (split_char 10 (replicate 40 120 @ [10]))"
    by code_simp
  have b: "int (length (replicate 40 (120::int))) \<le> max 40 (min 10 80)"
    using t10 [THEN conjunct2, THEN conjunct1, rule_format,
               of "replicate 40 120 @ [10]" "replicate 40 120"] r10 m
    by simp
  have st: "run_events ?wrap ascii_float [StartTag (asc ''pre''), Data (replicate 50 120)]
              (swiss_html_init 60 True)
            = Inr \<lparr>p_width = 60, p_ascii_only = True, p_out = [], p_buf = replicate 50 120,
                   p_in_li = False, p_table = None\<rparr>"
    by code_simp
  have inv: "p_width \<lparr>p_width = 60, p_ascii_only = True, p_out = [], p_buf = replicate 50 120,
                       p_in_li = False, p_table = None\<rparr> = 60"
    using t60 [THEN conjunct2, THEN conjunct2, THEN conjunct2, THEN conjunct1, rule_format,
               of "[StartTag (asc ''pre''), Data (replicate 50 120)]" "[EndTag (asc ''pre'')]"] st
    by simp
  have hp: "join (asc '' '') (split_ws (replicate 100 120)) = replicate 100 120"
    by code_simp
  have wp: "join [10] (map (take 60) (wrap_paragraphs ?wrap (replicate 100 120) 60 @ [[]]))
              = replicate 60 120 @ [10] @ replicate 40 120 @ [10]"
    by code_simp
  have rp: "html_to_swiss_ascii ?par ?wrap ascii_float (asc ''<p>...</p>'') 60 True
              = Inr (replicate 60 120 @ [10] @ replicate 40 120 @ [10])"
    using tp [THEN conjunct2, THEN conjunct2, THEN conjunct2, THEN conjunct2, THEN conjunct2,
              THEN conjunct1, rule_format, of "replicate 100 120"] wp
    by (simp add: hp)
  have wl: "wrap_paragraphs ?wrap (replicate 100 120) 58 = [replicate 58 120, replicate 42 120]"
    by code_simp
  have jl: "join [10] (map (take 60) [asc ''- '' @ replicate 58 120, asc ''  '' @ replicate 42 120, []])
              = asc ''- '' @ replicate 58 120 @ [10] @ asc ''  '' @ replicate 42 120 @ [10]"
    by code_simp
  have rl: "html_to_swiss_ascii ?li ?wrap ascii_float (asc ''<li>...</li>'') 60 True
              = Inr (asc ''- '' @ replicate 58 120 @ [10] @ asc ''  '' @ replicate 42 120 @ [10])"
    using tl [THEN conjunct2, THEN conjunct2, THEN conjunct2, THEN conjunct2, THEN conjunct2,
              THEN conjunct2, THEN conjunct1, rule_format,
              of "replicate 100 120" "[replicate 58 120, replicate 42 120]"] jl
    by (simp add: hp wl)
  have hs: "strip (replicate 70 120) = replicate 70 120"
    by code_simp
  have jh: "join [10] (map (take 60) [replicate 70 120, str_mul (asc ''-'') 60, []])
              = replicate 60 120 @ [10] @ replicate 60 45 @ [10]"
    by code_simp
  have rh: "html_to_swiss_ascii ?h1 ?wrap ascii_float (asc ''<h1>...</h1>'') 60 True
              = Inr (replicate 60 120 @ [10] @ replicate 60 45 @ [10])"
    using th [THEN conjunct2, THEN conjunct2, THEN conjunct2, THEN conjunct2, THEN conjunct2,
              THEN conjunct2, THEN conjunct2, rule_format, of "replicate 70 120"] jh
    by (simp add: hs)
  from r60 r10 r200 m b st rp rl rh show ?thesis by (intro conjI)
qed


section \<open>The proportion check passes when there is nothing to check\<close>

lemma validate_bar_proportions_vacuous:
  "data = [] \<or> filter is_bar_line lines = [] \<Longrightarrow> validate_bar_proportions lines data w = Inr True"
  by (auto simp add: validate_bar_proportions_def Let_def)

lemma proportions_ok_qc_block:
  "proportions_ok (qc_block text data w) \<longleftrightarrow>
     (case data of
        None \<Rightarrow> True
      | Some d \<Rightarrow> (case w of
                     None \<Rightarrow> True
                   | Some n \<Rightarrow> validate_bar_proportions (splitlines text) d n = Inr True))"
  by (simp add: qc_block_def Let_def split: option.split sum.split)

text \<open>
  Claim C10. \<open>qc_block\<close> reports \<open>proportions_ok = True\<close> whenever the data or the width is
  \<open>None\<close>, and also when the data mapping is empty or no line of the text, stripped, starts
  with \<open>[\<close>.
\<close>

theorem qc_block_proportions_vacuous:
  "(data = None \<or> w = None \<longrightarrow> proportions_ok (qc_block text data w))
   \<and> (data = Some [] \<or> filter is_bar_line (splitlines text) = []
        \<longrightarrow> proportions_ok (qc_block text data w))"
  by (auto simp add: proportions_ok_qc_block validate_bar_proportions_vacuous
        split: option.split)

theorem qc_block_proportions_vacuous_witness:
  "proportions_ok (qc_block (asc ''[A] ==== 4'') None (Some 4))
   \<and> proportions_ok (qc_block (asc ''[A] ==== 4'') (Some [(asc ''A'', 1)]) None)
   \<and> proportions_ok (qc_block (asc ''[A] ==== 4'') (Some []) (Some 4))
   \<and> filter is_bar_line (splitlines (asc ''no bars'')) = []
   \<and> proportions_ok (qc_block (asc ''no bars'') (Some [(asc ''A'', 1)]) (Some 4))"
proof -
  have nb: "filter is_bar_line (splitlines (asc ''no bars'')) = []" by code_simp
  from qc_block_proportions_vacuous [of None "Some 4" "asc ''[A] ==== 4''"]
    qc_block_proportions_vacuous [of "Some [(asc ''A'', 1)]" None "asc ''[A] ==== 4''"]
    qc_block_proportions_vacuous [of "Some []" "Some 4" "asc ''[A] ==== 4''"]
    qc_block_proportions_vacuous [of "Some [(asc ''A'', 1)]" "Some 4" "asc ''no bars''"] nb
  show ?thesis by simp
qed

end
